theory Spec2Isabelle
  imports Main "HOL-Library.AList"
begin

section \<open>Python values, errors and containers\<close>

text \<open>
  Values that occur as cells and labels of the pandas tables of \<^verbatim>\<open>genefab/_assay.py\<close>:
  strings, integers (the labels of a default RangeIndex), booleans, and the null cell NaN
  (what a record lacking a key leaves in the table).
\<close>

datatype pyval = Str string | Num int | Boolean bool | NaN

text \<open>
  Every \<^verbatim>\<open>raise\<close> of the source is a value of this type. An exception carries the fixed
  text of its message; \<open>IndexError\<close> carries the formatted-in title as well.
  \<open>CannotReindex i c\<close> is the IndexError of the message
  \<^verbatim>\<open>"Cannot reindex '{}' to ambiguous '{}'".format(i, c)\<close>, and \<open>StatusCodeError u s\<close> is the
  URLError of the message \<^verbatim>\<open>"{}: status code {}".format(u, s)\<close>.
\<close>

datatype error =
    GeneLabJSONException string
  | GeneLabFileException string
  | IndexError string string
  | CannotReindex "string option" string
  | KeyError pyval
  | TypeError
  | ValueError
  | OverflowError
  | OSError string
  | IsADirectoryError
  | FileNotFoundError
  | InvalidSchema
  | URLError string
  | StatusCodeError "string option" int

text \<open>
  A Python \<^verbatim>\<open>set\<close> is a list without duplicates (its iteration order is not specified by
  Python; no statement below depends on it). A \<^verbatim>\<open>dict\<close> is an association list read with
  \<open>map_of\<close>, its keys in insertion order.
\<close>

definition len_set :: "'a list \<Rightarrow> nat" where
  "len_set xs = length (remdups xs)"

definition set_union :: "'a list list \<Rightarrow> error + 'a list" where
  \<comment> \<open>\<^verbatim>\<open>set.union(*sets)\<close>: without an argument the unbound method raises TypeError\<close>
  "set_union sets = (if sets = [] then Inl TypeError else Inr (remdups (concat sets)))"

definition dict_keys :: "('k \<times> 'v) list \<Rightarrow> 'k list" where
  "dict_keys d = remdups (map fst d)"

definition dict_of_items :: "('k \<times> 'v) list \<Rightarrow> ('k \<times> 'v) list" where
  \<comment> \<open>a dict comprehension: a repeated key keeps its first position and its last value\<close>
  "dict_of_items items = foldl (\<lambda>d (k, v). AList.update k v d) [] items"

definition ebind :: "error + 'a \<Rightarrow> ('a \<Rightarrow> error + 'b) \<Rightarrow> error + 'b" where
  "ebind m f = (case m of Inl e \<Rightarrow> Inl e | Inr x \<Rightarrow> f x)"

fun py_eq :: "pyval \<Rightarrow> pyval \<Rightarrow> bool" where
  \<comment> \<open>Python's \<^verbatim>\<open>==\<close>: a bool is the integer 0 or 1, NaN equals nothing\<close>
  "py_eq (Str a) (Str b) = (a = b)"
| "py_eq (Num a) (Num b) = (a = b)"
| "py_eq (Boolean a) (Boolean b) = (a = b)"
| "py_eq (Num a) (Boolean b) = (a = (if b then 1 else 0))"
| "py_eq (Boolean a) (Num b) = (b = (if a then 1 else 0))"
| "py_eq _ _ = False"

definition py_same :: "pyval \<Rightarrow> pyval \<Rightarrow> bool" where
  \<comment> \<open>one member of a set: equal values, and the null cells, which are the one object
      \<^verbatim>\<open>numpy.nan\<close>\<close>
  "py_same a b = (a = b \<or> py_eq a b)"

fun py_set :: "pyval list \<Rightarrow> pyval list" where
  \<comment> \<open>\<^verbatim>\<open>set(values)\<close>\<close>
  "py_set [] = []"
| "py_set (x # xs) = x # filter (\<lambda>y. \<not> py_same x y) (py_set xs)"

section \<open>The \<^verbatim>\<open>re\<close> module\<close>

text \<open>
  The regular expression engine is Python's, not the repository's: the functions of \<^verbatim>\<open>re\<close>
  that the program calls are parameters of the model, and every theorem holds for whatever
  they decide. \<open>search re flags pattern string\<close> says whether \<^verbatim>\<open>re.search\<close> returns a match.
\<close>

datatype flags = NOFLAGS | IGNORECASE

type_synonym re_method = "flags \<Rightarrow> string \<Rightarrow> string \<Rightarrow> bool"

record re =
  search :: re_method
  fullmatch :: re_method
  split :: "string \<Rightarrow> string \<Rightarrow> string list"

text \<open>
  A concrete engine for closed examples: patterns built from literal characters, \<^verbatim>\<open>.\<close> and
  a postfix \<^verbatim>\<open>*\<close>, matched with backtracking as \<^verbatim>\<open>re\<close> does; \<^verbatim>\<open>.\<close> does not match a newline.
\<close>

definition ascii_lower :: "char \<Rightarrow> char" where
  "ascii_lower c =
     (case map_of (zip ''ABCDEFGHIJKLMNOPQRSTUVWXYZ'' ''abcdefghijklmnopqrstuvwxyz'') c of
        None \<Rightarrow> c | Some l \<Rightarrow> l)"

definition str_lower :: "string \<Rightarrow> string" where
  "str_lower s = map ascii_lower s"

definition atom_matches :: "flags \<Rightarrow> char \<Rightarrow> char \<Rightarrow> bool" where
  "atom_matches fl p c =
     (if p = CHR ''.'' then c \<noteq> CHR 0x0A
      else if fl = IGNORECASE then ascii_lower p = ascii_lower c
      else p = c)"

fun match_star :: "(string \<Rightarrow> bool) \<Rightarrow> (char \<Rightarrow> bool) \<Rightarrow> string \<Rightarrow> bool" where
  "match_star k ok [] = k []"
| "match_star k ok (c # cs) = (k (c # cs) \<or> (ok c \<and> match_star k ok cs))"

fun match_here :: "bool \<Rightarrow> flags \<Rightarrow> string \<Rightarrow> string \<Rightarrow> bool" where
  "match_here full fl [] s = (if full then s = [] else True)"
| "match_here full fl [p] [] = False"
| "match_here full fl [p] (c # s) = (atom_matches fl p c \<and> match_here full fl [] s)"
| "match_here full fl (p # q # rest) s =
     (if q = CHR ''*'' then match_star (\<lambda>t. match_here full fl rest t) (atom_matches fl p) s
      else (case s of [] \<Rightarrow> False
            | c # s' \<Rightarrow> atom_matches fl p c \<and> match_here full fl (q # rest) s'))"

fun fragment_search :: re_method where
  "fragment_search fl p [] = match_here False fl p []"
| "fragment_search fl p (c # s) = (match_here False fl p (c # s) \<or> fragment_search fl p s)"

definition fragment_fullmatch :: re_method where
  "fragment_fullmatch fl p s = match_here True fl p s"

definition is_space :: "char \<Rightarrow> bool" where
  \<comment> \<open>what \<^verbatim>\<open>\s\<close> matches among the ASCII characters\<close>
  "is_space c = (c \<in> set [CHR '' '', CHR 0x09, CHR 0x0A, CHR 0x0B, CHR 0x0C, CHR 0x0D,
                             CHR 0x1C, CHR 0x1D, CHR 0x1E, CHR 0x1F])"

fun split_on_comma :: "bool \<Rightarrow> string \<Rightarrow> string \<Rightarrow> string list" where
  \<comment> \<open>\<open>skip\<close>: just after a comma, where white space still belongs to the separator\<close>
  "split_on_comma skip acc [] = [rev acc]"
| "split_on_comma skip acc (c # s) =
     (if c = CHR '','' then rev (dropWhile is_space acc) # split_on_comma True [] s
      else if skip \<and> is_space c then split_on_comma True acc s
      else split_on_comma False (c # acc) s)"

definition rda_regex :: string where
  \<comment> \<open>\<^verbatim>\<open>r'\.rda(ta)?(\.gz)?$'\<close>, the blacklist of the derived-data loader\<close>
  "rda_regex = [CHR 0x5C] @ ''.rda(ta)?('' @ [CHR 0x5C] @ ''.gz)?$''"

definition rda_search :: "string \<Rightarrow> bool" where
  \<comment> \<open>\<^verbatim>\<open>search(r'\.rda(ta)?(\.gz)?$', s)\<close>, written out: \<^verbatim>\<open>$\<close> also matches before a final newline\<close>
  "rda_search s =
     (let t = (if s \<noteq> [] \<and> last s = CHR 0x0A then butlast s else s)
      in list_ex (\<lambda>e. drop (length s - length e) s = e \<or> drop (length t - length e) t = e)
           [''.rda'', ''.rdata'', ''.rda.gz'', ''.rdata.gz''])"

definition re_fragment :: re where
  \<comment> \<open>\<open>split\<close> is \<^verbatim>\<open>re.split\<close> for the one pattern the program splits on, \<^verbatim>\<open>\s*,\s*\<close>\<close>
  "re_fragment =
     \<lparr>search = (\<lambda>fl p s. if p = rda_regex then rda_search s else fragment_search fl p s),
      fullmatch = fragment_fullmatch,
      split = (\<lambda>pattern s. split_on_comma False [] s)\<rparr>"

section \<open>Tables\<close>

text \<open>
  A pandas DataFrame: column labels, row labels, and the cells row by row. Every row has
  one cell per column.
\<close>

record frame =
  columns :: "string list"
  index :: "pyval list"
  cells :: "pyval list list"

definition DataFrame :: frame where
  \<comment> \<open>\<^verbatim>\<open>DataFrame()\<close>\<close>
  "DataFrame = \<lparr>columns = [], index = [], cells = []\<rparr>"

definition len_frame :: "frame \<Rightarrow> nat" where
  \<comment> \<open>\<^verbatim>\<open>len(df)\<close>: the number of rows\<close>
  "len_frame df = length (index df)"

definition values_flatten :: "frame \<Rightarrow> pyval list" where
  \<comment> \<open>\<^verbatim>\<open>df.values.flatten()\<close>\<close>
  "values_flatten df = concat (cells df)"

definition cell_of :: "string list \<Rightarrow> pyval list \<Rightarrow> string \<Rightarrow> pyval" where
  "cell_of cols row c = (case map_of (zip cols row) c of None \<Rightarrow> NaN | Some v \<Rightarrow> v)"

definition getitem_columns :: "frame \<Rightarrow> string list \<Rightarrow> error + frame" where
  \<comment> \<open>\<^verbatim>\<open>df[list_of_labels]\<close>: KeyError on a label that is no column\<close>
  "getitem_columns df cs =
     (case filter (\<lambda>c. c \<notin> set (columns df)) cs of
        c # _ \<Rightarrow> Inl (KeyError (Str c))
      | [] \<Rightarrow> Inr \<lparr>columns = cs, index = index df,
                   cells = map (\<lambda>row. map (cell_of (columns df) row) cs) (cells df)\<rparr>)"

definition getitem_column :: "frame \<Rightarrow> string \<Rightarrow> error + pyval list" where
  \<comment> \<open>\<^verbatim>\<open>df[label]\<close>: the column as a Series, KeyError when there is no such column\<close>
  "getitem_column df c =
     (if c \<in> set (columns df) then Inr (map (\<lambda>row. cell_of (columns df) row c) (cells df))
      else Inl (KeyError (Str c)))"

definition loc_labels :: "frame \<Rightarrow> pyval list \<Rightarrow> error + frame" where
  \<comment> \<open>\<^verbatim>\<open>df.loc[list_of_row_labels]\<close>: the rows of each label in turn, KeyError on a label
      that is no row; the empty list selects no row\<close>
  "loc_labels df labels =
     (case filter (\<lambda>l. l \<notin> set (index df)) labels of
        l # _ \<Rightarrow> Inl (KeyError l)
      | [] \<Rightarrow>
          (let picked = concat (map (\<lambda>l. filter (\<lambda>(i, row). i = l) (zip (index df) (cells df))) labels)
           in Inr \<lparr>columns = columns df, index = map fst picked, cells = map snd picked\<rparr>))"

definition concat_series :: "(string \<times> pyval) list list \<Rightarrow> error + frame" where
  \<comment> \<open>\<^verbatim>\<open>concat(map(Series, raw), axis=1).T\<close>: one row per record under a RangeIndex, a
      column per key that occurs (no statement depends on their order), NaN where a record
      lacks the key; no record at all is pandas' ValueError "No objects to concatenate"\<close>
  "concat_series raw =
     (if raw = [] then Inl ValueError
      else (let cols = remdups (concat (map (map fst) raw))
            in Inr \<lparr>columns = cols, index = map (\<lambda>i. Num (int i)) [0 ..< length raw],
                     cells = map (\<lambda>rec. map (\<lambda>c. case map_of rec c of
                                                         None \<Rightarrow> NaN | Some v \<Rightarrow> v) cols) raw\<rparr>))"

definition set_index :: "frame \<Rightarrow> string option \<Rightarrow> error + frame" where
  \<comment> \<open>\<^verbatim>\<open>df.set_index(key)\<close>: the column becomes the row labels and leaves the columns\<close>
  "set_index df key =
     (case key of
        None \<Rightarrow> Inl (KeyError NaN)
      | Some f \<Rightarrow>
          if f \<notin> set (columns df) then Inl (KeyError (Str f))
          else (let rest = filter (\<lambda>c. c \<noteq> f) (columns df)
                in Inr \<lparr>columns = rest,
                         index = map (\<lambda>row. cell_of (columns df) row f) (cells df),
                         cells = map (\<lambda>row. map (cell_of (columns df) row) rest) (cells df)\<rparr>))"

definition reset_index :: "string option \<Rightarrow> frame \<Rightarrow> error + frame" where
  \<comment> \<open>\<^verbatim>\<open>df.reset_index()\<close> for a row index of the given name: the row labels become the first
      column, called after the index ("index", or "level_0" when that is a column, for an
      index without a name), under a RangeIndex; pandas raises ValueError when the table
      has a column of that label\<close>
  "reset_index index_name df =
     (let label = (case index_name of
                     Some n \<Rightarrow> n
                   | None \<Rightarrow> if ''index'' \<in> set (columns df) then ''level_0'' else ''index'')
      in if label \<in> set (columns df) then Inl ValueError
         else Inr \<lparr>columns = label # columns df,
                   index = map (\<lambda>i. Num (int i)) [0 ..< length (index df)],
                   cells = map (\<lambda>(l, row). l # row) (zip (index df) (cells df))\<rparr>)"

definition getitem_field :: "frame \<Rightarrow> string option \<Rightarrow> error + pyval list" where
  \<comment> \<open>\<^verbatim>\<open>df[field]\<close> for a field id that may be None, which is no column\<close>
  "getitem_field df field =
     (case field of None \<Rightarrow> Inl (KeyError NaN) | Some f \<Rightarrow> getitem_column df f)"

text \<open>
  A table of data, as \<^verbatim>\<open>read_csv\<close> returns it. Its column labels are strings when it is
  read, and whatever the row labels of the metadata are once they are translated.
\<close>

record data_frame =
  column_labels :: "pyval list"
  row_labels :: "pyval list"
  entries :: "pyval list list"

section \<open>Assay\<close>

text \<open>
  The attributes of class \<^verbatim>\<open>Assay\<close>; an attribute \<^verbatim>\<open>_x\<close> of the source is the field
  \<open>priv_x\<close>. \<open>priv_fields\<close> is the dict from a title to the set of its field ids.
\<close>

record assay =
  name :: string
  priv_fields :: "(string \<times> string list) list"
  raw_metadata :: frame
  priv_indexed_by :: "string option"
  priv_field_indexed_by :: "string option"
  priv_name_delim :: string
  glds_file_urls :: "(string \<times> string) list"
  storage :: string
  priv_normalized_data :: "data_frame option"
  priv_processed_data :: "data_frame option"

record assay_json =
  header :: "(string \<times> string) list"
  raw :: "(string \<times> pyval) list list"

definition join :: "string \<Rightarrow> string \<Rightarrow> string" where
  \<comment> \<open>\<^verbatim>\<open>os.path.join\<close> of two components (POSIX)\<close>
  "join a b =
     (if b \<noteq> [] \<and> hd b = CHR ''/'' then b
      else if a = [] \<or> last a = CHR ''/'' then a @ b
      else a @ ''/'' @ b)"

definition field_pool :: "assay \<Rightarrow> string list" where
  \<comment> \<open>the pool of \<^verbatim>\<open>_match_field_titles\<close>; \<^verbatim>\<open>if self._indexed_by\<close> is false for None and for
      the empty string\<close>
  "field_pool self =
     (case priv_indexed_by self of
        None \<Rightarrow> dict_keys (priv_fields self)
      | Some t \<Rightarrow> if t \<noteq> [] then remdups (dict_keys (priv_fields self) @ [t])
                  else dict_keys (priv_fields self))"

definition match_field_titles :: "assay \<Rightarrow> string \<Rightarrow> flags \<Rightarrow> re_method \<Rightarrow> string list" where
  \<comment> \<open>\<^verbatim>\<open>_match_field_titles\<close>\<close>
  "match_field_titles self pattern fl method =
     remdups (filter (\<lambda>title. method fl pattern title) (field_pool self))"

definition get_unique_field_from_title :: "re \<Rightarrow> assay \<Rightarrow> string \<Rightarrow> error + string option" where
  \<comment> \<open>\<^verbatim>\<open>_get_unique_field_from_title\<close>: the titles are matched with the default method,
      \<^verbatim>\<open>search\<close>. The result is a field id, or None when the index title is hit and
      \<^verbatim>\<open>_field_indexed_by\<close> is still None.\<close>
  "get_unique_field_from_title re self title =
     (let matching_titles = match_field_titles self title IGNORECASE (search re) in
      if length matching_titles = 0 then Inl (IndexError ''Nonexistent'' title)
      else if length matching_titles > 1 then Inl (IndexError ''Ambiguous'' title)
      else (let matching_title = hd matching_titles in
            case (if Some matching_title = priv_indexed_by self
                  then Inr [priv_field_indexed_by self]
                  else (case map_of (priv_fields self) matching_title of
                          None \<Rightarrow> Inl (KeyError (Str matching_title))
                        | Some fs \<Rightarrow> Inr (map Some fs))) of
              Inl e \<Rightarrow> Inl e
            | Inr matching_fields \<Rightarrow>
                if len_set matching_fields = 0 then Inl (IndexError ''Nonexistent'' title)
                else if len_set matching_fields > 1 then Inl (IndexError ''Ambiguous'' title)
                else Inr (hd matching_fields)))"

definition regex_filemask :: "string \<Rightarrow> string" where
  \<comment> \<open>\<^verbatim>\<open>filemask.split("/")[0].replace("*", ".*")\<close>\<close>
  "regex_filemask filemask =
     concat (map (\<lambda>c. if c = CHR ''*'' then ''.*'' else [c]) (takeWhile (\<lambda>c. c \<noteq> CHR ''/'') filemask))"

definition get_file_url :: "re \<Rightarrow> assay \<Rightarrow> string \<Rightarrow> error + string option" where
  \<comment> \<open>\<^verbatim>\<open>_get_file_url\<close>\<close>
  "get_file_url re self filemask =
     (let matching_names =
            remdups (filter (\<lambda>filename. search re NOFLAGS (regex_filemask filemask) filename)
                       (dict_keys (glds_file_urls self)))
      in if length matching_names = 0 then Inr None
         else if length matching_names > 1
           then Inl (GeneLabJSONException ''Multiple file URLs match name'')
         else Inr (map_of (glds_file_urls self) (hd matching_names)))"

fun collect :: "(error + 'a) list \<Rightarrow> error + 'a list" where
  \<comment> \<open>the results of a comprehension whose element expression may raise: the first error wins\<close>
  "collect [] = Inr []"
| "collect (Inl e # rs) = Inl e"
| "collect (Inr x # rs) = (case collect rs of Inl e \<Rightarrow> Inl e | Inr xs \<Rightarrow> Inr (x # xs))"

definition fields_of_title :: "assay \<Rightarrow> string \<Rightarrow> error + string list" where
  \<comment> \<open>\<^verbatim>\<open>self._fields[title]\<close>\<close>
  "fields_of_title self title =
     (case map_of (priv_fields self) title of
        None \<Rightarrow> Inl (KeyError (Str title)) | Some fs \<Rightarrow> Inr fs)"

definition metadata_getitem :: "re \<Rightarrow> assay \<Rightarrow> string list \<Rightarrow> error + frame" where
  \<comment> \<open>\<^verbatim>\<open>AssayMetadata.__getitem__\<close> for a list-like key (a collection of title patterns)\<close>
  "metadata_getitem re self patterns =
     (let titles = remdups (concat (map (\<lambda>p. match_field_titles self p IGNORECASE (fullmatch re))
                                      patterns))
      in if titles \<noteq> [] then
           (case collect (map (fields_of_title self) titles) of
              Inl e \<Rightarrow> Inl e
            | Inr field_sets \<Rightarrow>
                (case set_union field_sets of
                   Inl e \<Rightarrow> Inl e
                 | Inr fs \<Rightarrow> getitem_columns (raw_metadata self) fs))
         else Inr DataFrame)"

definition index_matches :: "re \<Rightarrow> frame \<Rightarrow> string \<Rightarrow> error + pyval list" where
  \<comment> \<open>\<^verbatim>\<open>{ix for ix in df.index if fullmatch(pattern, ix, flags=IGNORECASE)}\<close>; \<^verbatim>\<open>fullmatch\<close>
      raises TypeError on a label that is no string\<close>
  "index_matches re df pattern =
     (case collect (map (\<lambda>ix. case ix of
                              Str s \<Rightarrow> Inr (fullmatch re IGNORECASE pattern s, ix)
                            | _ \<Rightarrow> Inl TypeError) (index df)) of
        Inl e \<Rightarrow> Inl e
      | Inr hits \<Rightarrow> Inr (remdups (map snd (filter fst hits))))"

definition loc_getitem :: "re \<Rightarrow> assay \<Rightarrow> string list \<Rightarrow> error + frame" where
  \<comment> \<open>\<^verbatim>\<open>AssayMetadataLocator.__getitem__\<close> for a key that is a list or a set (a collection
      of index patterns), lines 82 to 89\<close>
  "loc_getitem re self key =
     (case collect (map (index_matches re (raw_metadata self)) key) of
        Inl e \<Rightarrow> Inl e
      | Inr sets \<Rightarrow>
          (case set_union sets of
             Inl e \<Rightarrow> Inl e
           | Inr indices \<Rightarrow> loc_labels (raw_metadata self) indices))"

subsection \<open>Construction\<close>

definition set_add :: "'a \<Rightarrow> 'a list \<Rightarrow> 'a list" where
  "set_add x s = (if x \<in> set s then s else s @ [x])"

definition fields_of_field2title :: "(string \<times> string) list \<Rightarrow> (string \<times> string list) list" where
  \<comment> \<open>the loop filling \<^verbatim>\<open>defaultdict(set)\<close>: \<^verbatim>\<open>self._fields[title].add(field)\<close>\<close>
  "fields_of_field2title field2title =
     foldl (\<lambda>d (field, title).
              AList.update title (set_add field (case map_of d title of None \<Rightarrow> [] | Some s \<Rightarrow> s)) d)
       [] field2title"

definition sub_delim :: "string \<Rightarrow> string \<Rightarrow> string" where
  \<comment> \<open>\<^verbatim>\<open>sub(r'[._-]', name_delim, f)\<close>, for a replacement without a backslash (which \<^verbatim>\<open>re\<close>
      would read as an escape)\<close>
  "sub_delim name_delim f = concat (map (\<lambda>c. if c \<in> set ''._-'' then name_delim else [c]) f)"

definition map_index :: "(string \<Rightarrow> string) \<Rightarrow> pyval list \<Rightarrow> error + pyval list" where
  \<comment> \<open>\<^verbatim>\<open>index.map(lambda f: sub(..., f))\<close>: \<^verbatim>\<open>sub\<close> raises TypeError on a label that is no string\<close>
  "map_index g labels =
     collect (map (\<lambda>l. case l of Str f \<Rightarrow> Inr (Str (g f)) | _ \<Rightarrow> Inl TypeError) labels)"

definition assay_init ::
  "re \<Rightarrow> string \<Rightarrow> string \<Rightarrow> assay_json \<Rightarrow> (string \<times> string) list \<Rightarrow> string \<Rightarrow> string \<Rightarrow> string
     \<Rightarrow> error + assay" where
  \<comment> \<open>\<^verbatim>\<open>Assay.__init__\<close>. \<open>DELIM_AS_IS\<close> is a constant of \<^verbatim>\<open>genefab/_util.py\<close> that the sources
      lack; it is a parameter. The record is built with \<open>priv_name_delim\<close> already set: no
      method called before line 204 reads it.\<close>
  "assay_init re DELIM_AS_IS assay_name json file_urls storage_prefix index_by name_delim =
     (let field2title = dict_of_items (header json) in
      if length field2title \<noteq> length (header json)
      then Inl (GeneLabJSONException ''Conflicting IDs of data fields'')
      else
        (case concat_series (raw json) of
           Inl e \<Rightarrow> Inl e
         | Inr table \<Rightarrow>
            (let self0 = \<lparr>name = assay_name, priv_fields = fields_of_field2title field2title,
                          raw_metadata = table, priv_indexed_by = None,
                          priv_field_indexed_by = None, priv_name_delim = name_delim,
                          glds_file_urls = file_urls, storage = join storage_prefix assay_name,
                          priv_normalized_data = None, priv_processed_data = None\<rparr>
             in case get_unique_field_from_title re self0 index_by of
                  Inl e \<Rightarrow> Inl e
                | Inr field \<Rightarrow>
                   (let self1 = self0\<lparr>priv_field_indexed_by := field\<rparr>;
                        maybe_indexed_by = match_field_titles self1 index_by IGNORECASE (fullmatch re)
                    in if length maybe_indexed_by \<noteq> 1
                       then Inl (IndexError ''Nonexistent or ambiguous index_by value'' index_by)
                       else
                         (let self2 = self1\<lparr>priv_indexed_by := Some (hd maybe_indexed_by)\<rparr>
                          in case set_index (raw_metadata self2) (priv_field_indexed_by self2) of
                               Inl e \<Rightarrow> Inl e
                             | Inr indexed \<Rightarrow>
                                (case (if name_delim \<noteq> DELIM_AS_IS
                                       then map_index (sub_delim name_delim) (index indexed)
                                       else Inr (index indexed)) of
                                   Inl e \<Rightarrow> Inl e
                                 | Inr labels \<Rightarrow>
                                    (case map_of (priv_fields self2) (hd maybe_indexed_by) of
                                       None \<Rightarrow> Inl (KeyError (Str (hd maybe_indexed_by)))
                                     | Some _ \<Rightarrow>
                                         Inr (self2\<lparr>raw_metadata := indexed\<lparr>index := labels\<rparr>,
                                                    priv_fields := AList.delete (hd maybe_indexed_by)
                                                                     (priv_fields self2)\<rparr>))))))))"

section \<open>\<^verbatim>\<open>fetch_file\<close>\<close>

text \<open>
  \<^verbatim>\<open>fetch_file\<close> and the loader act on the file store and the network through functions
  that are not the repository's: \<^verbatim>\<open>os.path.isdir\<close> and \<^verbatim>\<open>isfile\<close>, \<^verbatim>\<open>os.makedirs\<close>,
  \<^verbatim>\<open>os.remove\<close>, the builtin \<^verbatim>\<open>open\<close> with the \<^verbatim>\<open>write\<close> of its handle and the close that
  ends the \<^verbatim>\<open>with\<close> block, \<^verbatim>\<open>requests.get\<close>, the builtin \<^verbatim>\<open>int\<close>, and \<^verbatim>\<open>pandas.read_csv\<close>.
  They are parameters of the model. They act on a world \<open>'w\<close>, the file store and whatever
  else they depend on; each of them may raise, and may have changed the world when it
  does. A handle is named by the path it was opened on.

  A response gives its status code, the lookup of a header (\<^verbatim>\<open>stream.headers.get\<close>), and
  what iterating over \<^verbatim>\<open>stream.iter_content(chunk_size)\<close> yields: the blocks in order and,
  when the transfer breaks, the exception that ends the iteration after them.
\<close>

type_synonym bytes = string

record response =
  status_code :: int
  headers :: "string \<Rightarrow> string option"
  iter_content :: "nat \<Rightarrow> bytes list \<times> error option"

record 'w io =
  isdir :: "string \<Rightarrow> 'w \<Rightarrow> bool"
  isfile :: "string \<Rightarrow> 'w \<Rightarrow> bool"
  makedirs :: "string \<Rightarrow> 'w \<Rightarrow> error option \<times> 'w"
  remove :: "string \<Rightarrow> 'w \<Rightarrow> error option \<times> 'w"
  open_wb :: "string \<Rightarrow> 'w \<Rightarrow> error option \<times> 'w"
  handle_write :: "string \<Rightarrow> bytes \<Rightarrow> 'w \<Rightarrow> error option \<times> 'w"
  handle_close :: "string \<Rightarrow> 'w \<Rightarrow> error option \<times> 'w"
  get :: "string option \<Rightarrow> 'w \<Rightarrow> (error + response) \<times> 'w"
  py_int :: "string \<Rightarrow> error + int"
  read_csv :: "string \<Rightarrow> 'w \<Rightarrow> (error + data_frame) \<times> 'w"

definition ensure_directory :: "'w io \<Rightarrow> string \<Rightarrow> 'w \<Rightarrow> error option \<times> 'w" where
  \<comment> \<open>lines 29 to 32\<close>
  "ensure_directory io target_directory w =
     (if \<not> isdir io target_directory w then
        (if isfile io target_directory w
         then (Some (OSError ''Local storage exists and is not a directory''), w)
         else makedirs io target_directory w)
      else (None, w))"

definition ftp_to_http :: "string \<Rightarrow> string" where
  \<comment> \<open>\<^verbatim>\<open>sub(r'^ftp:\/\/', "http://", url)\<close>\<close>
  "ftp_to_http url = (if take 6 url = ''ftp://'' then ''http://'' @ drop 6 url else url)"

definition request :: "'w io \<Rightarrow> string option \<Rightarrow> bool \<Rightarrow> 'w \<Rightarrow> (error + response) \<times> 'w" where
  \<comment> \<open>lines 41 to 47: only InvalidSchema is caught, and the second request is outside the
      \<^verbatim>\<open>try\<close>; \<^verbatim>\<open>sub\<close> raises TypeError on a URL that is None\<close>
  "request io url http_fallback w =
     (case get io url w of
        (Inl e, w') \<Rightarrow>
          if e = InvalidSchema then
            (if http_fallback
             then (case url of
                     None \<Rightarrow> (Inl TypeError, w')
                   | Some u \<Rightarrow> get io (Some (ftp_to_http u)) w')
             else (Inl InvalidSchema, w'))
          else (Inl e, w')
      | (Inr stream, w') \<Rightarrow> (Inr stream, w'))"

definition total_bytes_of :: "'w io \<Rightarrow> response \<Rightarrow> error + int" where
  \<comment> \<open>\<^verbatim>\<open>int(stream.headers.get("content-length", 0))\<close>\<close>
  "total_bytes_of io stream =
     (case headers stream ''content-length'' of None \<Rightarrow> Inr 0 | Some v \<Rightarrow> py_int io v)"

definition true_division_overflows :: "int \<Rightarrow> bool" where
  \<comment> \<open>\<^verbatim>\<open>total_bytes / 1024\<close> is a float: the division raises OverflowError when the quotient
      rounds to no finite double\<close>
  "true_division_overflows total_bytes = (2 ^ 1034 - 2 ^ 980 \<le> \<bar>total_bytes\<bar>)"

fun write_blocks :: "'w io \<Rightarrow> string \<Rightarrow> bytes list \<Rightarrow> nat \<Rightarrow> 'w \<Rightarrow> (error + nat) \<times> 'w" where
  \<comment> \<open>the loop of lines 61 to 63 over the blocks that arrive, from a count of
      \<^verbatim>\<open>written_bytes\<close>; a \<^verbatim>\<open>write\<close> that raises ends it\<close>
  "write_blocks io target_file [] written_bytes w = (Inr written_bytes, w)"
| "write_blocks io target_file (block # blocks) written_bytes w =
     (case handle_write io target_file block w of
        (Some e, w') \<Rightarrow> (Inl e, w')
      | (None, w') \<Rightarrow> write_blocks io target_file blocks (written_bytes + length block) w')"

definition download :: "'w io \<Rightarrow> string \<Rightarrow> response \<Rightarrow> 'w \<Rightarrow> (error + nat) \<times> 'w" where
  \<comment> \<open>the \<^verbatim>\<open>with\<close> block of lines 52 to 63: the result is \<^verbatim>\<open>written_bytes\<close>. The handle is
      closed however the loop ends, and an exception of the close is the one that leaves
      the block.\<close>
  "download io target_file stream w =
     (case open_wb io target_file w of
        (Some e, w1) \<Rightarrow> (Inl e, w1)
      | (None, w1) \<Rightarrow>
          (case iter_content stream 1024 of
             (blocks, broken) \<Rightarrow>
               (case write_blocks io target_file blocks 0 w1 of
                  (r, w2) \<Rightarrow>
                    (case handle_close io target_file w2 of
                       (Some e, w3) \<Rightarrow> (Inl e, w3)
                     | (None, w3) \<Rightarrow>
                         (case r of
                            Inl e \<Rightarrow> (Inl e, w3)
                          | Inr written_bytes \<Rightarrow>
                              (case broken of
                                 Some e \<Rightarrow> (Inl e, w3)
                               | None \<Rightarrow> (Inr written_bytes, w3)))))))"

definition fetch_file ::
  "'w io \<Rightarrow> string \<Rightarrow> string option \<Rightarrow> string \<Rightarrow> bool \<Rightarrow> bool \<Rightarrow> 'w \<Rightarrow> (error + string) \<times> 'w" where
  \<comment> \<open>\<^verbatim>\<open>fetch_file\<close> with \<^verbatim>\<open>verbose=False\<close>, as every call in the repository has it\<close>
  "fetch_file io file_name url target_directory update http_fallback w =
     (case ensure_directory io target_directory w of
        (Some e, w1) \<Rightarrow> (Inl e, w1)
      | (None, w1) \<Rightarrow>
          (let target_file = join target_directory file_name
           in if \<not> update \<and> isdir io target_file w1
              then (Inl (OSError (''Directory with target name exists: '' @ target_file)), w1)
              else if \<not> update \<and> isfile io target_file w1 then (Inr target_file, w1)
              else
                (case request io url http_fallback w1 of
                   (Inl e, w2) \<Rightarrow> (Inl e, w2)
                 | (Inr stream, w2) \<Rightarrow>
                     if status_code stream \<noteq> 200
                     then (Inl (StatusCodeError url (status_code stream)), w2)
                     else
                       (case total_bytes_of io stream of
                          Inl e \<Rightarrow> (Inl e, w2)
                        | Inr total_bytes \<Rightarrow>
                            if true_division_overflows total_bytes then (Inl OverflowError, w2)
                            else
                              (case download io target_file stream w2 of
                                 (Inl e, w3) \<Rightarrow> (Inl e, w3)
                               | (Inr written_bytes, w3) \<Rightarrow>
                                   if total_bytes \<noteq> int written_bytes
                                   then (case remove io target_file w3 of
                                           (Some e, w4) \<Rightarrow> (Inl e, w4)
                                         | (None, w4) \<Rightarrow>
                                             (Inl (URLError
                                                ''Failed to download the correct number of bytes''),
                                              w4))
                                   else (Inr target_file, w3))))))"

section \<open>The derived-data loader\<close>

definition translate_column ::
  "re \<Rightarrow> assay \<Rightarrow> string \<Rightarrow> (pyval \<times> pyval) list \<Rightarrow> pyval \<Rightarrow> error + pyval" where
  \<comment> \<open>one pass of the loop of lines 389 to 400. \<^verbatim>\<open>search(k, column)\<close> raises TypeError when
      the key or the column label is no string.\<close>
  "translate_column re self data_columns column_translator column =
     ebind (collect (map (\<lambda>(k, v). case (k, column) of
                                       (Str p, Str c) \<Rightarrow> Inr (search re NOFLAGS p c, v)
                                     | _ \<Rightarrow> Inl TypeError) column_translator))
       (\<lambda>hits. let matching_keys = filter fst hits
                in if length matching_keys = 1 then Inr (snd (hd matching_keys))
                   else Inl (CannotReindex (priv_indexed_by self) data_columns))"

definition translate_data_sample_names ::
  "re \<Rightarrow> assay \<Rightarrow> data_frame \<Rightarrow> string \<Rightarrow> error + data_frame" where
  \<comment> \<open>\<^verbatim>\<open>_translate_data_sample_names\<close>. The row index of \<^verbatim>\<open>raw_metadata\<close> is named
      \<^verbatim>\<open>_field_indexed_by\<close>: line 203 names it, and no line renames it.\<close>
  "translate_data_sample_names re self data data_columns =
     ebind (get_unique_field_from_title re self data_columns) (\<lambda>field_from.
     ebind (reset_index (priv_field_indexed_by self) (raw_metadata self)) (\<lambda>table.
     ebind (getitem_field table field_from) (\<lambda>column_from.
     ebind (getitem_field table (priv_field_indexed_by self)) (\<lambda>column_to.
       if length column_from = length (py_set column_from)
          \<and> length (py_set column_from) = length (py_set column_to)
       then ebind (collect (map (translate_column re self data_columns (zip column_from column_to))
                              (column_labels data)))
              (\<lambda>translated_columns. Inr (data\<lparr>column_labels := translated_columns\<rparr>))
       else Inl (CannotReindex (priv_indexed_by self) data_columns)))))"

definition rewrite_columns :: "string \<Rightarrow> assay \<Rightarrow> data_frame \<Rightarrow> error + data_frame" where
  \<comment> \<open>lines 432 to 435\<close>
  "rewrite_columns DELIM_AS_IS self data =
     (if priv_name_delim self \<noteq> DELIM_AS_IS
      then ebind (map_index (sub_delim (priv_name_delim self)) (column_labels data))
             (\<lambda>labels. Inr (data\<lparr>column_labels := labels\<rparr>))
      else Inr data)"

definition comma_regex :: string where
  \<comment> \<open>\<^verbatim>\<open>r'\s*,\s*'\<close>\<close>
  "comma_regex = [CHR 0x5C] @ ''s*,'' @ [CHR 0x5C] @ ''s*''"

definition split_cell :: "re \<Rightarrow> pyval \<Rightarrow> error + string list" where
  \<comment> \<open>\<^verbatim>\<open>set(split(r'\s*,\s*', e))\<close>; \<^verbatim>\<open>split\<close> raises TypeError on a cell that is no string\<close>
  "split_cell re e =
     (case e of Str s \<Rightarrow> Inr (remdups (split re comma_regex s)) | _ \<Rightarrow> Inl TypeError)"

definition target_filenames_of :: "re \<Rightarrow> string \<Rightarrow> string list \<Rightarrow> string list" where
  \<comment> \<open>\<^verbatim>\<open>{fn for fn in filenames if not search(blacklist_regex, fn)}\<close>\<close>
  "target_filenames_of re blacklist_regex filenames =
     remdups (filter (\<lambda>fn. \<not> search re NOFLAGS blacklist_regex fn) filenames)"

definition read_target ::
  "re \<Rightarrow> 'w io \<Rightarrow> string \<Rightarrow> assay \<Rightarrow> string \<Rightarrow> bool \<Rightarrow> bool \<Rightarrow> string \<Rightarrow> 'w
     \<Rightarrow> (error + data_frame) \<times> 'w" where
  \<comment> \<open>lines 425 to 436 of \<^verbatim>\<open>_read_data_from\<close>, for the one target file name. A table's axes
      have no name in the model: the name that line 429 gives to the column axis is read
      by line 401 alone, which hands it on.\<close>
  "read_target re io DELIM_AS_IS self filename force_redownload translate_sample_names
       data_columns w =
     (case get_file_url re self filename of
        Inl e \<Rightarrow> (Inl e, w)
      | Inr url \<Rightarrow>
          (case fetch_file io filename url (storage self) force_redownload True w of
             (Inl e, w1) \<Rightarrow> (Inl e, w1)
           | (Inr target_file, w1) \<Rightarrow>
               (case read_csv io (join (storage self) filename) w1 of
                  (Inl e, w2) \<Rightarrow> (Inl e, w2)
                | (Inr data, w2) \<Rightarrow>
                    (ebind (if translate_sample_names
                            then translate_data_sample_names re self data data_columns
                            else Inr data)
                       (rewrite_columns DELIM_AS_IS self),
                     w2))))"

definition read_data_from ::
  "re \<Rightarrow> 'w io \<Rightarrow> string \<Rightarrow> assay \<Rightarrow> string \<Rightarrow> string \<Rightarrow> bool \<Rightarrow> bool \<Rightarrow> string \<Rightarrow> 'w
     \<Rightarrow> (error + data_frame option) \<times> 'w" where
  \<comment> \<open>\<^verbatim>\<open>_read_data_from\<close>, with the tab as \<^verbatim>\<open>sep\<close>, as every call has it; \<open>DELIM_AS_IS\<close> is the
      constant that the sources lack\<close>
  "read_data_from re io DELIM_AS_IS self field_title blacklist_regex force_redownload
       translate_sample_names data_columns w =
     (case metadata_getitem re self [field_title] of
        Inl e \<Rightarrow> (Inl e, w)
      | Inr meta_files \<Rightarrow>
          if len_frame meta_files \<noteq> 0 then
            (case collect (map (split_cell re) (values_flatten meta_files)) of
               Inl e \<Rightarrow> (Inl e, w)
             | Inr sets \<Rightarrow>
                (case set_union sets of
                   Inl e \<Rightarrow> (Inl e, w)
                 | Inr filenames \<Rightarrow>
                    (let target_filenames = target_filenames_of re blacklist_regex filenames in
                     if length target_filenames = 0 then
                       (Inl (GeneLabFileException
                               ''No suitable normalized annotated data files found''), w)
                     else if length target_filenames > 1 then
                       (Inl (GeneLabFileException
                               ''Multiple normalized annotated data files found''), w)
                     else
                       (case read_target re io DELIM_AS_IS self (hd target_filenames)
                               force_redownload translate_sample_names data_columns w of
                          (Inl e, w') \<Rightarrow> (Inl e, w')
                        | (Inr data, w') \<Rightarrow> (Inr (Some data), w')))))
          else (Inr None, w))"

text \<open>
  The fetches and the properties call the bound method \<^verbatim>\<open>self._read_data_from\<close>. It is a
  parameter here, \<open>read_data_from re io DELIM_AS_IS\<close> being the method of the source, so
  that each of its runs can be told from its effect on the world.
\<close>

type_synonym 'w reader =
  "assay \<Rightarrow> string \<Rightarrow> string \<Rightarrow> bool \<Rightarrow> bool \<Rightarrow> string \<Rightarrow> 'w \<Rightarrow> (error + data_frame option) \<times> 'w"

definition get_normalized_data ::
  "'w reader \<Rightarrow> assay \<Rightarrow> bool \<Rightarrow> bool \<Rightarrow> string \<Rightarrow> 'w
     \<Rightarrow> (error + data_frame option) \<times> assay \<times> 'w" where
  \<comment> \<open>an exception leaves \<^verbatim>\<open>_normalized_data\<close> as it was\<close>
  "get_normalized_data read self force_redownload translate_sample_names data_columns w =
     (case read self ''.*normalized data files.*'' rda_regex
             force_redownload translate_sample_names data_columns w of
        (Inl e, w') \<Rightarrow> (Inl e, self, w')
      | (Inr data, w') \<Rightarrow> (Inr data, self\<lparr>priv_normalized_data := data\<rparr>, w'))"

definition normalized_data ::
  "'w reader \<Rightarrow> assay \<Rightarrow> 'w \<Rightarrow> (error + data_frame option) \<times> assay \<times> 'w" where
  \<comment> \<open>the property \<^verbatim>\<open>normalized_data\<close>\<close>
  "normalized_data read self w =
     (case priv_normalized_data self of
        None \<Rightarrow> get_normalized_data read self False False ''sample name'' w
      | Some data \<Rightarrow> (Inr (Some data), self, w))"

definition get_processed_data ::
  "'w reader \<Rightarrow> assay \<Rightarrow> bool \<Rightarrow> bool \<Rightarrow> string \<Rightarrow> 'w
     \<Rightarrow> (error + data_frame option) \<times> assay \<times> 'w" where
  "get_processed_data read self force_redownload translate_sample_names data_columns w =
     (case read self ''.*normalized annotated data files.*'' rda_regex
             force_redownload translate_sample_names data_columns w of
        (Inl e, w') \<Rightarrow> (Inl e, self, w')
      | (Inr data, w') \<Rightarrow> (Inr data, self\<lparr>priv_processed_data := data\<rparr>, w'))"

definition processed_data ::
  "'w reader \<Rightarrow> assay \<Rightarrow> 'w \<Rightarrow> (error + data_frame option) \<times> assay \<times> 'w" where
  \<comment> \<open>the property \<^verbatim>\<open>processed_data\<close>\<close>
  "processed_data read self w =
     (case priv_processed_data self of
        None \<Rightarrow> get_processed_data read self False False ''sample name'' w
      | Some data \<Rightarrow> (Inr (Some data), self, w))"

definition counted :: "'w reader \<Rightarrow> (nat \<times> 'w) reader" where
  \<comment> \<open>a reader together with the number of its runs\<close>
  "counted read self field_title blacklist_regex force_redownload translate_sample_names
       data_columns nw =
     (case read self field_title blacklist_regex force_redownload translate_sample_names
             data_columns (snd nw) of
        (r, w') \<Rightarrow> (r, (Suc (fst nw), w')))"

section \<open>\<^verbatim>\<open>AssayDispatcher\<close>\<close>

text \<open>
  The dispatcher is a dict from an assay's name to an \<^verbatim>\<open>Assay\<close> object. Objects live in a
  heap, a list whose positions are the addresses, so that sharing an object and copying it
  differ. The addresses of a dispatcher are positions of the heap.
\<close>

type_synonym addr = nat

type_synonym heap = "assay list"

type_synonym dispatcher = "(string \<times> addr) list"

definition ASSAY_CHARACTERISTICS :: "string list" where
  "ASSAY_CHARACTERISTICS =
     [''normalized annotated data file'',
      ''differential expression analysis data transformation'',
      ''normalized counts data file'']"

definition ASSAY_PROTOCOL_LIST :: "string list" where
  "ASSAY_PROTOCOL_LIST =
     [''genelab microarray data processing protocol'',
      ''genelab rnaseq data processing protocol'']"

definition str_lower_cell :: "pyval \<Rightarrow> error + pyval" where
  \<comment> \<open>\<^verbatim>\<open>str.lower\<close> raises TypeError on what is no string\<close>
  "str_lower_cell v = (case v of Str s \<Rightarrow> Inr (Str (str_lower s)) | _ \<Rightarrow> Inl TypeError)"

definition strip_factor_value :: "string \<Rightarrow> string" where
  \<comment> \<open>\<^verbatim>\<open>sub('^factor value:\s+', "", f, flags=IGNORECASE)\<close>\<close>
  "strip_factor_value f =
     (if str_lower (take 13 f) = ''factor value:'' \<and> drop 13 f \<noteq> [] \<and> is_space (hd (drop 13 f))
      then dropWhile is_space (drop 13 f) else f)"

definition summary_rows :: "re \<Rightarrow> (assay \<Rightarrow> error + string list) \<Rightarrow> string \<Rightarrow> assay
     \<Rightarrow> error + pyval list list" where
  \<comment> \<open>one pass of the loop of \<^verbatim>\<open>_summary_dataframe\<close>. \<open>factors_columns assay\<close> stands for
      \<^verbatim>\<open>assay.factors().columns\<close>, which reads the sample annotation of the parent dataset.\<close>
  "summary_rows re factors_columns assay_name assay =
     ebind (metadata_getitem re assay [''Protocol REF'']) (\<lambda>protocol_frame.
     ebind (collect (map str_lower_cell (values_flatten protocol_frame))) (\<lambda>protocol_set.
     ebind (factors_columns assay) (\<lambda>fs.
       Inr (map (\<lambda>factor.
                  [Str assay_name, Str factor]
                  @ map (\<lambda>characteristic.
                           Boolean (length (match_field_titles assay characteristic IGNORECASE
                                              (search re)) > 0))
                      ASSAY_CHARACTERISTICS
                  @ map (\<lambda>protocol. Boolean (Str protocol \<in> set protocol_set))
                      ASSAY_PROTOCOL_LIST)
              (remdups (map strip_factor_value fs))))))"

definition summary_dataframe :: "re \<Rightarrow> (assay \<Rightarrow> error + string list) \<Rightarrow> heap \<Rightarrow> dispatcher
     \<Rightarrow> error + frame" where
  \<comment> \<open>\<^verbatim>\<open>_summary_dataframe\<close>: the rows under a default RangeIndex\<close>
  "summary_dataframe re factors_columns h self =
     ebind (collect (map (\<lambda>(assay_name, a). summary_rows re factors_columns assay_name (h ! a))
                       self)) (\<lambda>rowss.
       (let repr_rows = concat rowss
        in Inr \<lparr>columns = [''name'', ''factors''] @ ASSAY_CHARACTERISTICS @ ASSAY_PROTOCOL_LIST,
                 index = map (\<lambda>i. Num (int i)) [0 ..< length repr_rows],
                 cells = repr_rows\<rparr>))"

definition eq_column :: "frame \<Rightarrow> string \<Rightarrow> pyval \<Rightarrow> error + bool list" where
  \<comment> \<open>\<^verbatim>\<open>rd[label] == value\<close>\<close>
  "eq_column rd label v = ebind (getitem_column rd label) (\<lambda>col. Inr (map (\<lambda>c. py_eq c v) col))"

definition and_mask :: "bool list \<Rightarrow> error + bool list \<Rightarrow> error + bool list" where
  \<comment> \<open>\<^verbatim>\<open>subsetter &= condition\<close>\<close>
  "and_mask subsetter condition =
     ebind condition (\<lambda>m. Inr (map (\<lambda>(a, b). a \<and> b) (zip subsetter m)))"

definition chosen_names_of ::
  "re \<Rightarrow> (assay \<Rightarrow> error + string list) \<Rightarrow> heap \<Rightarrow> dispatcher
     \<Rightarrow> string option \<Rightarrow> bool option \<Rightarrow> bool option \<Rightarrow> bool option \<Rightarrow> error + pyval list" where
  \<comment> \<open>lines 555 to 565 of \<^verbatim>\<open>choose\<close>: the row labels that pass the filters\<close>
  "chosen_names_of re factors_columns h self factors has_arrays has_normalized_data
       has_processed_data =
     ebind (summary_dataframe re factors_columns h self) (\<lambda>rd.
     ebind (getitem_column rd ''has_arrays'') (\<lambda>col.
     ebind (case factors of None \<Rightarrow> Inr (map (\<lambda>c. \<not> py_eq c (Num 2)) col)
            | Some f \<Rightarrow> and_mask (map (\<lambda>c. \<not> py_eq c (Num 2)) col)
                          (eq_column rd ''factors'' (Str f))) (\<lambda>s1.
     ebind (case has_arrays of None \<Rightarrow> Inr s1
            | Some b \<Rightarrow> and_mask s1 (eq_column rd ''has_arrays'' (Boolean b))) (\<lambda>s2.
     ebind (case has_normalized_data of None \<Rightarrow> Inr s2
            | Some b \<Rightarrow> and_mask s2 (eq_column rd ''has_normalized_data'' (Boolean b))) (\<lambda>s3.
     ebind (case has_processed_data of None \<Rightarrow> Inr s3
            | Some b \<Rightarrow> and_mask s3 (eq_column rd ''has_processed_data'' (Boolean b))) (\<lambda>subsetter.
       Inr (remdups (map fst (filter snd (zip (index rd) subsetter))))))))))"

fun index_of :: "'a \<Rightarrow> 'a list \<Rightarrow> nat" where
  "index_of x [] = 0"
| "index_of x (y # ys) = (if x = y then 0 else Suc (index_of x ys))"

definition deepcopy :: "heap \<Rightarrow> dispatcher \<Rightarrow> heap \<times> dispatcher" where
  \<comment> \<open>\<^verbatim>\<open>deepcopy(self)\<close>: every object the dict refers to is copied once, to a fresh address\<close>
  "deepcopy h self =
     (let olds = remdups (map snd self)
      in (h @ map (\<lambda>a. h ! a) olds,
          map (\<lambda>(assay_name, a). (assay_name, length h + index_of a olds)) self))"

definition choose_subset :: "heap \<Rightarrow> dispatcher \<Rightarrow> pyval list \<Rightarrow> heap \<times> dispatcher" where
  \<comment> \<open>lines 566 to 570 of \<^verbatim>\<open>choose\<close>: copy, then delete the names that were not chosen\<close>
  "choose_subset h self chosen_names =
     (let (h', chosen_subset) = deepcopy h self
      in (h', filter (\<lambda>(assay_name, a). list_ex (py_eq (Str assay_name)) chosen_names)
                chosen_subset))"

definition dispatcher_choose ::
  "re \<Rightarrow> (assay \<Rightarrow> error + string list) \<Rightarrow> heap \<Rightarrow> dispatcher
     \<Rightarrow> string option \<Rightarrow> bool option \<Rightarrow> bool option \<Rightarrow> bool option
     \<Rightarrow> (error + dispatcher) \<times> heap" where
  \<comment> \<open>\<^verbatim>\<open>AssayDispatcher.choose\<close> (\<open>choose\<close> is the binomial coefficient in HOL); the keyword
      \<^verbatim>\<open>material_type\<close> is never read\<close>
  "dispatcher_choose re factors_columns h self factors has_arrays has_normalized_data has_processed_data =
     (case chosen_names_of re factors_columns h self factors has_arrays has_normalized_data
             has_processed_data of
        Inl e \<Rightarrow> (Inl e, h)
      | Inr chosen_names \<Rightarrow>
          (let (h', chosen_subset) = choose_subset h self chosen_names
           in (Inr chosen_subset, h')))"

section \<open>Clients of an assay\<close>

text \<open>
  The operations of a constructed assay that assign to it are the two fetches and the two
  properties; everything else the model gives as a function of the assay. A client is a
  list of such calls, run in order, whatever each returns or raises.
\<close>

datatype query =
    Get_normalized_data bool bool string
  | Normalized_data
  | Get_processed_data bool bool string
  | Processed_data

fun run_query :: "'w reader \<Rightarrow> assay \<times> 'w \<Rightarrow> query \<Rightarrow> assay \<times> 'w" where
  "run_query read (self, w) (Get_normalized_data force_redownload translate_sample_names
       data_columns) =
     snd (get_normalized_data read self force_redownload translate_sample_names data_columns w)"
| "run_query read (self, w) Normalized_data = snd (normalized_data read self w)"
| "run_query read (self, w) (Get_processed_data force_redownload translate_sample_names
       data_columns) =
     snd (get_processed_data read self force_redownload translate_sample_names data_columns w)"
| "run_query read (self, w) Processed_data = snd (processed_data read self w)"

definition run_queries :: "'w reader \<Rightarrow> query list \<Rightarrow> assay \<times> 'w \<Rightarrow> assay \<times> 'w" where
  "run_queries read qs s = foldl (run_query read) s qs"

section \<open>Example data\<close>

text \<open>
  An assay record of two samples, the file listing of its study, and the assay built from
  them with \<^verbatim>\<open>index_by="Sample Name"\<close> and \<^verbatim>\<open>name_delim="_"\<close>.
\<close>

definition example_json :: assay_json where
  "example_json =
     \<lparr>header = [(''a100000'', ''Sample Name''), (''a100001'', ''Protocol REF''),
                (''a100002'', ''Parameter Value: Normalized Data Files'')],
      raw = [[(''a100000'', Str ''GSM1.a-1''),
              (''a100001'', Str ''GeneLab RNAseq data processing protocol''),
              (''a100002'', Str ''GLDS-1_out.txt, GLDS-1_out.rda.gz'')],
             [(''a100000'', Str ''GSM2_b''),
              (''a100001'', Str ''GeneLab RNAseq data processing protocol''),
              (''a100002'', Str ''GLDS-1_out.txt'')]]\<rparr>"

definition example_urls :: "(string \<times> string) list" where
  "example_urls = [(''SRR123_1.fastq'', ''url1''), (''SRR123_2.fastq'', ''url2''),
                   (''GLDS-1_out.txt'', ''url3'')]"

definition example_assay :: assay where
  "example_assay =
     \<lparr>name = ''a_GLDS-1'',
      priv_fields = [(''Protocol REF'', [''a100001'']),
                     (''Parameter Value: Normalized Data Files'', [''a100002''])],
      raw_metadata =
        \<lparr>columns = [''a100001'', ''a100002''],
         index = [Str ''GSM1_a_1'', Str ''GSM2_b''],
         cells = [[Str ''GeneLab RNAseq data processing protocol'',
                   Str ''GLDS-1_out.txt, GLDS-1_out.rda.gz''],
                  [Str ''GeneLab RNAseq data processing protocol'',
                   Str ''GLDS-1_out.txt'']]\<rparr>,
      priv_indexed_by = Some ''Sample Name'',
      priv_field_indexed_by = Some ''a100000'',
      priv_name_delim = ''_'',
      glds_file_urls = example_urls,
      storage = ''.genelab/a_GLDS-1'',
      priv_normalized_data = None,
      priv_processed_data = None\<rparr>"

text \<open>
  The example assay with two titles of which one is part of the other, as the ISA-Tab
  columns "Array Data File" and "Derived Array Data File" are.
\<close>

definition array_assay :: assay where
  "array_assay = example_assay\<lparr>priv_fields :=
      [(''Array Data File'', [''a100003'']), (''Derived Array Data File'', [''a100004''])]\<rparr>"

text \<open>An assay record whose only column has the empty title.\<close>

definition untitled_json :: assay_json where
  "untitled_json = \<lparr>header = [(''a100000'', [])], raw = [[(''a100000'', Str ''GSM1'')]]\<rparr>"

text \<open>
  A heap holding the example assay, the dispatcher that refers to it, and the factor
  columns \<^verbatim>\<open>assay.factors().columns\<close> of a study with the one factor "Spaceflight".
\<close>

definition example_heap :: heap where
  "example_heap = [example_assay]"

definition example_dispatcher :: dispatcher where
  "example_dispatcher = [(''a_GLDS-1'', 0)]"

definition example_factors_columns :: "assay \<Rightarrow> error + string list" where
  "example_factors_columns assay = Inr [''Factor Value: Spaceflight'']"

text \<open>The example assay with nothing but archives listed as normalized data files.\<close>

definition archive_only_assay :: assay where
  "archive_only_assay =
     example_assay\<lparr>raw_metadata := (raw_metadata example_assay)
       \<lparr>cells := [[Str ''GeneLab RNAseq data processing protocol'',
                   Str ''GLDS-1_out.rda.gz, GLDS-1_out.rdata''],
                  [Str ''GeneLab RNAseq data processing protocol'',
                   Str ''GLDS-1_out.rda.gz'']]\<rparr>\<rparr>"

text \<open>
  A file store for the examples: the paths that exist, each with what is there, a
  directory or a file and its bytes. A directory that \<^verbatim>\<open>makedirs\<close> makes stands for the chain
  of its parents; opening a file for writing needs its directory, and empties the file.
\<close>

datatype node = File bytes | Directory

type_synonym store = "(string \<times> node) list"

definition dirname :: "string \<Rightarrow> string" where
  "dirname p = rev (drop 1 (dropWhile (\<lambda>c. c \<noteq> CHR ''/'') (rev p)))"

text \<open>
  The file GLDS-1_out.txt on the server, a table of one gene and two samples; the response
  that carries it, with its 32 bytes declared; the table that \<^verbatim>\<open>read_csv\<close> makes of it; and
  that table with the delimiters of its column labels rewritten.
\<close>

definition example_body :: bytes where
  "example_body =
     ''ID'' @ [CHR 0x09] @ ''GSM1.a-1'' @ [CHR 0x09] @ ''GSM2_b'' @ [CHR 0x0A]
     @ ''ENSG01'' @ [CHR 0x09] @ ''10'' @ [CHR 0x09] @ ''12'' @ [CHR 0x0A]"

definition example_response :: response where
  "example_response =
     \<lparr>status_code = 200,
      headers = (\<lambda>key. if str_lower key = ''content-length'' then Some ''32'' else None),
      iter_content = (\<lambda>chunk_size. ([example_body], None))\<rparr>"

definition parsed_table :: data_frame where
  "parsed_table = \<lparr>column_labels = [Str ''GSM1.a-1'', Str ''GSM2_b''],
                     row_labels = [Str ''ENSG01''], entries = [[Num 10, Num 12]]\<rparr>"

definition example_table :: data_frame where
  "example_table = \<lparr>column_labels = [Str ''GSM1_a_1'', Str ''GSM2_b''],
                      row_labels = [Str ''ENSG01''], entries = [[Num 10, Num 12]]\<rparr>"

text \<open>
  The library functions over this store, with a server that answers every request with
  the response above; \<^verbatim>\<open>requests\<close> has no adapter for an ftp URL.
\<close>

definition example_io :: "store io" where
  "example_io =
     \<lparr>isdir = (\<lambda>p w. map_of w p = Some Directory),
      isfile = (\<lambda>p w. case map_of w p of Some (File b) \<Rightarrow> True | _ \<Rightarrow> False),
      makedirs = (\<lambda>p w. if p = [] then (Some FileNotFoundError, w)
                         else if map_of w p \<noteq> None then (Some (OSError ''File exists''), w)
                         else (None, w @ [(p, Directory)])),
      remove = (\<lambda>p w. case map_of w p of
                         Some (File b) \<Rightarrow> (None, AList.delete p w)
                       | Some Directory \<Rightarrow> (Some IsADirectoryError, w)
                       | None \<Rightarrow> (Some FileNotFoundError, w)),
      open_wb = (\<lambda>p w. if map_of w p = Some Directory then (Some IsADirectoryError, w)
                        else if dirname p \<noteq> [] \<and> map_of w (dirname p) \<noteq> Some Directory
                          then (Some FileNotFoundError, w)
                        else (None, AList.update p (File []) w)),
      handle_write = (\<lambda>p block w. case map_of w p of
                              Some (File b) \<Rightarrow> (None, AList.update p (File (b @ block)) w)
                            | _ \<Rightarrow> (Some ValueError, w)),
      handle_close = (\<lambda>p w. (None, w)),
      get = (\<lambda>url w. case url of
                        None \<Rightarrow> (Inl ValueError, w)
                      | Some u \<Rightarrow> if take 6 u = ''ftp://'' then (Inl InvalidSchema, w)
                                  else (Inr example_response, w)),
      py_int = (\<lambda>v. if v = ''32'' then Inr 32 else Inl ValueError),
      read_csv = (\<lambda>p w. case map_of w p of
                           Some (File b) \<Rightarrow> if b = example_body then (Inr parsed_table, w)
                                            else (Inl ValueError, w)
                         | _ \<Rightarrow> (Inl FileNotFoundError, w))\<rparr>"

text \<open>The same with a server that sends the file without a Content-Length header.\<close>

definition headerless_io :: "store io" where
  "headerless_io =
     example_io\<lparr>get := (\<lambda>url w. (Inr (example_response\<lparr>headers := (\<lambda>key. None)\<rparr>), w))\<rparr>"

text \<open>The store once GLDS-1_out.txt is in the storage directory of the example assay.\<close>

definition fetched_store :: store where
  "fetched_store = [(''.genelab/a_GLDS-1'', Directory),
                    (''.genelab/a_GLDS-1/GLDS-1_out.txt'', File example_body)]"

text \<open>
  The example assay in a study that lists a checksum beside the data file: as a search
  pattern, the name GLDS-1_out.txt is found in both names.
\<close>

definition checksum_assay :: assay where
  "checksum_assay =
     example_assay\<lparr>glds_file_urls := example_urls @ [(''GLDS-1_out.txt.md5'', ''url4'')]\<rparr>"

section \<open>Auxiliary facts\<close>


lemma distinct_singleton_set: "distinct xs \<Longrightarrow> set xs = {x} \<Longrightarrow> xs = [x]"
proof (cases xs)
  case Nil
  assume "set xs = {x}" with Nil show ?thesis by simp
next
  case (Cons a as)
  assume d: "distinct xs" and s: "set xs = {x}"
  from s Cons have a: "a = x" by auto
  from d Cons have "a \<notin> set as" by simp
  moreover from s Cons have "set as \<subseteq> {x}" by auto
  ultimately have "as = []" using a by (cases as) auto
  with Cons a show ?thesis by simp
qed

lemma length_remdups_filter:
  "length (remdups (filter P xs)) = card {x \<in> set xs. P x}"
proof -
  have "length (remdups (filter P xs)) = card (set (filter P xs))"
    by (rule length_remdups_card_conv)
  also have "set (filter P xs) = {x \<in> set xs. P x}" by (rule set_filter)
  finally show ?thesis .
qed

lemma remdups_filter_singleton:
  assumes "{x \<in> set xs. P x} = {y}"
  shows "remdups (filter P xs) = [y]"
proof -
  have "set (remdups (filter P xs)) = {x \<in> set xs. P x}" by simp
  then have "set (remdups (filter P xs)) = {y}" by (simp only: assms)
  moreover have "distinct (remdups (filter P xs))" by (rule distinct_remdups)
  ultimately show ?thesis by (rule distinct_singleton_set [rotated])
qed

section \<open>File reference resolution\<close>




section \<open>Unique field resolution\<close>

lemma len_set_card: "len_set xs = card (set xs)"
  by (simp add: len_set_def length_remdups_card_conv)

lemma len_set_map_Some: "len_set (map Some fs) = card (set fs)"
proof -
  have "card (Some ` set fs) = card (set fs)" by (rule card_image) simp
  then show ?thesis by (simp add: len_set_card)
qed

lemma set_singleton_hd:
  assumes "set fs = {x}"
  shows "fs \<noteq> []" and "hd fs = x" and "card (set fs) = 1"
proof -
  from assms show ne: "fs \<noteq> []" by auto
  then have "hd fs \<in> set fs" by (rule hd_in_set)
  with assms show "hd fs = x" by simp
  from assms show "card (set fs) = 1" by simp
qed

lemma guf_single_other:
  assumes m: "match_field_titles self title IGNORECASE (search re) = [t]"
    and i: "priv_indexed_by self \<noteq> Some t"
    and f: "map_of (priv_fields self) t = Some fs"
  shows "get_unique_field_from_title re self title =
     (if card (set fs) = 0 then Inl (IndexError ''Nonexistent'' title)
      else if card (set fs) > 1 then Inl (IndexError ''Ambiguous'' title)
      else Inr (hd (map Some fs)))"
proof -
  from i have ni: "Some t \<noteq> priv_indexed_by self" by (rule not_sym)
  show ?thesis
    unfolding get_unique_field_from_title_def Let_def m
    by (simp add: ni f len_set_map_Some)
qed

lemma guf_single_index:
  assumes m: "match_field_titles self title IGNORECASE (search re) = [t]"
    and i: "priv_indexed_by self = Some t"
  shows "get_unique_field_from_title re self title = Inr (priv_field_indexed_by self)"
  unfolding get_unique_field_from_title_def Let_def m
  by (simp add: i len_set_def)

text \<open>
  C4, as the code has it. \<^verbatim>\<open>_get_unique_field_from_title\<close> matches the pattern against the
  title pool with \<^verbatim>\<open>search\<close>, the default method of \<^verbatim>\<open>_match_field_titles\<close>: a title counts
  when the pattern is found anywhere in it, ignoring case. For every pattern: no such title
  raises IndexError "Nonexistent", more than one raises IndexError "Ambiguous"; a single
  one that is the index title yields the index field; any other single title yields its
  field id when it has exactly one, and raises "Nonexistent" or "Ambiguous" when it has
  none or several.
\<close>

theorem get_unique_field_from_title_search:
  "(let M = {t \<in> set (field_pool self). search re IGNORECASE title t};
        result = get_unique_field_from_title re self title
    in (M = {} \<longrightarrow> result = Inl (IndexError ''Nonexistent'' title))
     \<and> (card M > 1 \<longrightarrow> result = Inl (IndexError ''Ambiguous'' title))
     \<and> (\<forall>t. M = {t} \<and> priv_indexed_by self = Some t \<longrightarrow>
            result = Inr (priv_field_indexed_by self))
     \<and> (\<forall>t fs. M = {t} \<and> priv_indexed_by self \<noteq> Some t
                 \<and> map_of (priv_fields self) t = Some fs \<longrightarrow>
            (set fs = {} \<longrightarrow> result = Inl (IndexError ''Nonexistent'' title))
          \<and> (card (set fs) > 1 \<longrightarrow> result = Inl (IndexError ''Ambiguous'' title))
          \<and> (\<forall>f. set fs = {f} \<longrightarrow> result = Inr (Some f))))"
proof -
  define P where "P = (\<lambda>t. search re IGNORECASE title t)"
  define M where "M = {t \<in> set (field_pool self). P t}"
  define ms where "ms = match_field_titles self title IGNORECASE (search re)"
  define result where "result = get_unique_field_from_title re self title"
  have ms_eq: "ms = remdups (filter P (field_pool self))"
    by (simp add: ms_def match_field_titles_def P_def)
  have len: "length ms = card M"
    unfolding ms_eq M_def by (rule length_remdups_filter)
  have single: "ms = [t]" if "M = {t}" for t
    using that unfolding ms_eq M_def by (rule remdups_filter_singleton)
  have g: "result =
      (if length ms = 0 then Inl (IndexError ''Nonexistent'' title)
       else if length ms > 1 then Inl (IndexError ''Ambiguous'' title)
       else (case (if Some (hd ms) = priv_indexed_by self
                   then Inr [priv_field_indexed_by self]
                   else (case map_of (priv_fields self) (hd ms) of
                           None \<Rightarrow> Inl (KeyError (Str (hd ms)))
                         | Some fs \<Rightarrow> Inr (map Some fs))) of
               Inl e \<Rightarrow> Inl e
             | Inr matching_fields \<Rightarrow>
                 if len_set matching_fields = 0 then Inl (IndexError ''Nonexistent'' title)
                 else if len_set matching_fields > 1 then Inl (IndexError ''Ambiguous'' title)
                 else Inr (hd matching_fields)))"
    unfolding result_def get_unique_field_from_title_def ms_def [symmetric] Let_def ..
  have a: "M = {} \<longrightarrow> result = Inl (IndexError ''Nonexistent'' title)"
    using g len by simp
  have b: "card M > 1 \<longrightarrow> result = Inl (IndexError ''Ambiguous'' title)"
    using g len by simp
  have c: "\<forall>t. M = {t} \<and> priv_indexed_by self = Some t \<longrightarrow>
            result = Inr (priv_field_indexed_by self)"
  proof (intro allI impI, elim conjE)
    fix t assume mt: "M = {t}" and i: "priv_indexed_by self = Some t"
    from mt have "ms = [t]" by (rule single)
    then show "result = Inr (priv_field_indexed_by self)"
      unfolding result_def ms_def using i by (rule guf_single_index)
  qed
  have d: "\<forall>t fs. M = {t} \<and> priv_indexed_by self \<noteq> Some t
                 \<and> map_of (priv_fields self) t = Some fs \<longrightarrow>
            (set fs = {} \<longrightarrow> result = Inl (IndexError ''Nonexistent'' title))
          \<and> (card (set fs) > 1 \<longrightarrow> result = Inl (IndexError ''Ambiguous'' title))
          \<and> (\<forall>f. set fs = {f} \<longrightarrow> result = Inr (Some f))"
  proof (intro allI impI, elim conjE)
    fix t fs assume mt: "M = {t}" and i: "priv_indexed_by self \<noteq> Some t"
      and f: "map_of (priv_fields self) t = Some fs"
    from mt have m: "ms = [t]" by (rule single)
    have r: "result = (if card (set fs) = 0 then Inl (IndexError ''Nonexistent'' title)
                      else if card (set fs) > 1 then Inl (IndexError ''Ambiguous'' title)
                      else Inr (hd (map Some fs)))"
      unfolding result_def using m [unfolded ms_def] i f by (rule guf_single_other)
    have r0: "set fs = {} \<longrightarrow> result = Inl (IndexError ''Nonexistent'' title)"
      by (simp add: r)
    have r1: "card (set fs) > 1 \<longrightarrow> result = Inl (IndexError ''Ambiguous'' title)"
      by (simp add: r)
    have r2: "\<forall>x. set fs = {x} \<longrightarrow> result = Inr (Some x)"
    proof (intro allI impI)
      fix x assume s: "set fs = {x}"
      from s have "fs \<noteq> []" and "hd fs = x" and "card (set fs) = 1"
        by (rule set_singleton_hd)+
      then show "result = Inr (Some x)" by (simp add: r hd_map)
    qed
    from r0 r1 r2
    show "(set fs = {} \<longrightarrow> result = Inl (IndexError ''Nonexistent'' title))
          \<and> (card (set fs) > 1 \<longrightarrow> result = Inl (IndexError ''Ambiguous'' title))
          \<and> (\<forall>f. set fs = {f} \<longrightarrow> result = Inr (Some f))"
      by (intro conjI)
  qed
  show ?thesis using a b c d unfolding Let_def M_def P_def result_def by (intro conjI)
qed


lemma Collect_set_filter: "{x \<in> set xs. P x} = set (filter P xs)"
  by simp

text \<open>
  C4 as stated speaks of titles that match exactly. The pattern "Array Data File" matches
  exactly one title in full, and that title has one field id, yet the resolution fails as
  ambiguous: the pattern is also found inside "Derived Array Data File".
\<close>

theorem exact_match_conflated_counterexample:
  "match_field_titles array_assay ''Array Data File'' IGNORECASE (fullmatch re_fragment)
     = [''Array Data File'']
   \<and> map_of (priv_fields array_assay) ''Array Data File'' = Some [''a100003'']
   \<and> get_unique_field_from_title re_fragment array_assay ''Array Data File''
     = Inl (IndexError ''Ambiguous'' ''Array Data File'')"
  by code_simp

text \<open>
  The four outcomes on the example: no title, two titles, the index title, one other title.
\<close>

theorem get_unique_field_from_title_search_witness:
  "get_unique_field_from_title re_fragment array_assay ''Raw Data File''
     = Inl (IndexError ''Nonexistent'' ''Raw Data File'')
   \<and> get_unique_field_from_title re_fragment array_assay ''array data file''
     = Inl (IndexError ''Ambiguous'' ''array data file'')
   \<and> get_unique_field_from_title re_fragment array_assay ''sample name'' = Inr (Some ''a100000'')
   \<and> get_unique_field_from_title re_fragment array_assay ''derived array data file''
     = Inr (Some ''a100004'')"
proof (intro conjI)
  have "filter (\<lambda>t. search re_fragment IGNORECASE ''Raw Data File'' t) (field_pool array_assay) = []"
    by code_simp
  then have m: "{t \<in> set (field_pool array_assay). search re_fragment IGNORECASE ''Raw Data File'' t} = {}"
    unfolding Collect_set_filter by simp
  show "get_unique_field_from_title re_fragment array_assay ''Raw Data File''
     = Inl (IndexError ''Nonexistent'' ''Raw Data File'')"
    using get_unique_field_from_title_search [of array_assay re_fragment "''Raw Data File''"]
    unfolding Let_def m by blast
next
  have "filter (\<lambda>t. search re_fragment IGNORECASE ''array data file'' t) (field_pool array_assay)
      = [''Array Data File'', ''Derived Array Data File'']"
    by code_simp
  then have m: "{t \<in> set (field_pool array_assay). search re_fragment IGNORECASE ''array data file'' t}
      = {''Array Data File'', ''Derived Array Data File''}"
    unfolding Collect_set_filter by simp
  have "card {''Array Data File'', ''Derived Array Data File''} > 1" by simp
  then show "get_unique_field_from_title re_fragment array_assay ''array data file''
     = Inl (IndexError ''Ambiguous'' ''array data file'')"
    using get_unique_field_from_title_search [of array_assay re_fragment "''array data file''"]
    unfolding Let_def m by blast
next
  have "filter (\<lambda>t. search re_fragment IGNORECASE ''sample name'' t) (field_pool array_assay)
      = [''Sample Name'']"
    by code_simp
  then have m: "{t \<in> set (field_pool array_assay). search re_fragment IGNORECASE ''sample name'' t}
      = {''Sample Name''}"
    unfolding Collect_set_filter by simp
  have i: "priv_indexed_by array_assay = Some ''Sample Name''" by code_simp
  have f: "priv_field_indexed_by array_assay = Some ''a100000''" by code_simp
  have "get_unique_field_from_title re_fragment array_assay ''sample name''
      = Inr (priv_field_indexed_by array_assay)"
    using get_unique_field_from_title_search [of array_assay re_fragment "''sample name''"] i
    unfolding Let_def m by blast
  then show "get_unique_field_from_title re_fragment array_assay ''sample name''
      = Inr (Some ''a100000'')" by (simp only: f)
next
  have "filter (\<lambda>t. search re_fragment IGNORECASE ''derived array data file'' t)
          (field_pool array_assay) = [''Derived Array Data File'']"
    by code_simp
  then have m: "{t \<in> set (field_pool array_assay).
                  search re_fragment IGNORECASE ''derived array data file'' t}
      = {''Derived Array Data File''}"
    unfolding Collect_set_filter by simp
  have i: "priv_indexed_by array_assay \<noteq> Some ''Derived Array Data File''" by code_simp
  have f: "map_of (priv_fields array_assay) ''Derived Array Data File'' = Some [''a100004'']"
    by code_simp
  have s: "set [''a100004''] = {''a100004''}" by simp
  show "get_unique_field_from_title re_fragment array_assay ''derived array data file''
      = Inr (Some ''a100004'')"
    using get_unique_field_from_title_search [of array_assay re_fragment "''derived array data file''"]
      i f s
    unfolding Let_def m by blast
qed

section \<open>Construction\<close>

lemma assay_init_InrD:
  assumes "assay_init re D nm json urls sp index_by nd = Inr a"
  shows "\<exists>table field t indexed labels.
           concat_series (raw json) = Inr table
         \<and> set_index table field = Inr indexed
         \<and> (if nd \<noteq> D then map_index (sub_delim nd) (index indexed) else Inr (index indexed))
               = Inr labels
         \<and> priv_indexed_by a = Some t
         \<and> priv_field_indexed_by a = field
         \<and> raw_metadata a = indexed\<lparr>index := labels\<rparr>
         \<and> priv_fields a = AList.delete t (fields_of_field2title (dict_of_items (header json)))"
  using assms unfolding assay_init_def Let_def
  apply (auto split: if_splits sum.splits option.splits)
  apply (intro exI conjI; (assumption | rule refl))
  done

lemma run_query_registry:
  "priv_fields (fst (run_query read s q)) = priv_fields (fst s)
   \<and> priv_indexed_by (fst (run_query read s q)) = priv_indexed_by (fst s)"
  by (cases s; cases q)
     (simp_all add: get_normalized_data_def normalized_data_def get_processed_data_def
        processed_data_def split: prod.splits sum.splits option.splits)

lemma run_queries_registry:
  "priv_fields (fst (run_queries read qs s)) = priv_fields (fst s)
   \<and> priv_indexed_by (fst (run_queries read qs s)) = priv_indexed_by (fst s)"
  unfolding run_queries_def
  by (induction qs arbitrary: s) (simp_all add: run_query_registry)

lemma map_of_delete_self: "map_of (AList.delete k al) k = None"
  by (simp add: AList.delete_conv)

lemma field_pool_index_title:
  "priv_indexed_by a = Some t \<Longrightarrow> t \<noteq> [] \<Longrightarrow> t \<in> set (field_pool a)"
  by (simp add: field_pool_def)

text \<open>
  C9, as the code has it. After a successful construction the index title is no key of
  \<^verbatim>\<open>_fields\<close>, and the pool of \<^verbatim>\<open>_match_field_titles\<close> holds it whenever it is not the empty
  string (\<^verbatim>\<open>if self._indexed_by\<close> is false for an empty title). Both stay so after any
  sequence of fetches and property accesses, whatever \<^verbatim>\<open>_read_data_from\<close> does and whatever
  the world is.
\<close>

theorem index_title_after_construction:
  assumes "assay_init re D nm json urls sp index_by nd = Inr a"
  shows "\<exists>t. priv_indexed_by a = Some t
           \<and> (let a' = fst (run_queries read qs (a, w))
              in priv_indexed_by a' = Some t
               \<and> map_of (priv_fields a') t = None
               \<and> (t \<noteq> [] \<longrightarrow> t \<in> set (field_pool a')))"
proof -
  from assay_init_InrD [OF assms] obtain t where
    i: "priv_indexed_by a = Some t" and
    f: "priv_fields a = AList.delete t (fields_of_field2title (dict_of_items (header json)))"
    by blast
  define a' where "a' = fst (run_queries read qs (a, w))"
  have r: "priv_fields a' = priv_fields a" "priv_indexed_by a' = priv_indexed_by a"
    unfolding a'_def using run_queries_registry [of read qs "(a, w)"] by simp_all
  have 1: "priv_indexed_by a' = Some t" using r i by simp
  have 2: "map_of (priv_fields a') t = None" using r f by (simp add: map_of_delete_self)
  have 3: "t \<noteq> [] \<longrightarrow> t \<in> set (field_pool a')"
    using 1 by (simp add: field_pool_index_title)
  show ?thesis using i 1 2 3 unfolding Let_def a'_def by blast
qed

text \<open>
  C9 as stated has the pool hold the index title of every constructed assay. A header whose
  one title is the empty string builds an assay indexed by that title, and the pool, which
  then is just the keys of \<^verbatim>\<open>_fields\<close>, does not hold it: the pattern that found the title
  at construction finds nothing afterwards.
\<close>

theorem empty_index_title_counterexample:
  "(case assay_init re_fragment ''as.is'' ''a_GLDS-1'' untitled_json example_urls ''.genelab''
           [] ''_'' of
      Inl e \<Rightarrow> False
    | Inr a \<Rightarrow> priv_indexed_by a = Some [] \<and> [] \<notin> set (field_pool a)
               \<and> match_field_titles a [] IGNORECASE (fullmatch re_fragment) = [])"
  by code_simp
text \<open>
  The example assay is what the constructor builds from the example record; its index
  title "Sample Name" is gone from the fields and stays in the pool while a client reads
  the normalized data and fetches the processed data.
\<close>

theorem index_title_after_construction_witness:
  "assay_init re_fragment ''as.is'' ''a_GLDS-1'' example_json example_urls ''.genelab''
       ''Sample Name'' ''_'' = Inr example_assay
   \<and> (let a' = fst (run_queries (read_data_from re_fragment example_io ''as.is'')
                      [Normalized_data, Get_processed_data True False ''sample name'']
                      (example_assay, []))
      in priv_indexed_by a' = Some ''Sample Name''
       \<and> map_of (priv_fields a') ''Sample Name'' = None
       \<and> ''Sample Name'' \<in> set (field_pool a'))"
proof -
  have c: "assay_init re_fragment ''as.is'' ''a_GLDS-1'' example_json example_urls ''.genelab''
       ''Sample Name'' ''_'' = Inr example_assay"
    by code_simp
  have i: "priv_indexed_by example_assay = Some ''Sample Name''" by code_simp
  have ne: "''Sample Name'' \<noteq> []" by simp
  from index_title_after_construction [OF c, of "read_data_from re_fragment example_io ''as.is''"
      "[Normalized_data, Get_processed_data True False ''sample name'']" "[]"]
  show ?thesis using c i ne unfolding Let_def by auto
qed

section \<open>Delimiter normalisation of the index\<close>

lemma map_index_InrD:
  "map_index g ls = Inr ls' \<Longrightarrow> \<exists>ns. ls = map Str ns \<and> ls' = map (\<lambda>n. Str (g n)) ns"
proof (induction ls arbitrary: ls')
  case Nil
  then show ?case by (simp add: map_index_def)
next
  case (Cons l ls)
  from Cons.prems obtain s where l: "l = Str s"
    by (cases l) (simp_all add: map_index_def)
  from Cons.prems l obtain rest where r: "map_index g ls = Inr rest" and e: "ls' = Str (g s) # rest"
    by (auto simp add: map_index_def split: sum.splits)
  from Cons.IH [OF r] obtain ns where "ls = map Str ns" and "rest = map (\<lambda>n. Str (g n)) ns"
    by blast
  then have "l # ls = map Str (s # ns) \<and> ls' = map (\<lambda>n. Str (g n)) (s # ns)"
    using l e by simp
  then show ?case by (rule exI)
qed

lemma map_index_Str: "map_index g (map Str ns) = Inr (map (\<lambda>n. Str (g n)) ns)"
  by (induction ns) (simp_all add: map_index_def)

lemma sub_delim_underscore:
  "sub_delim ''_'' f = map (\<lambda>c. if c = CHR ''.'' \<or> c = CHR ''-'' then CHR ''_'' else c) f"
  by (induction f) (auto simp add: sub_delim_def)

lemma sub_delim_idem: "sub_delim ''_'' (sub_delim ''_'' f) = sub_delim ''_'' f"
  by (simp add: sub_delim_underscore)

lemma set_index_InrD:
  "set_index table field = Inr indexed \<Longrightarrow>
     \<exists>f. field = Some f \<and> f \<in> set (columns table)
        \<and> index indexed = map (\<lambda>row. cell_of (columns table) row f) (cells table)"
  by (auto simp add: set_index_def Let_def split: option.splits if_splits)

lemma concat_series_InrD:
  "concat_series rs = Inr table \<Longrightarrow>
     cells table = map (\<lambda>r. map (\<lambda>c. case map_of r c of None \<Rightarrow> NaN | Some v \<Rightarrow> v)
                              (columns table)) rs"
  by (auto simp add: concat_series_def Let_def split: if_splits)

lemma cell_of_map:
  "c \<in> set cols \<Longrightarrow> cell_of cols (map h cols) c = h c"
  by (simp add: cell_of_def map_of_zip_map)

lemma map_case_Str:
  "map (\<lambda>r. case h r of None \<Rightarrow> NaN | Some v \<Rightarrow> v) xs = map Str ns
     \<Longrightarrow> map h xs = map (\<lambda>n. Some (Str n)) ns"
proof (induction xs arbitrary: ns)
  case Nil
  then show ?case by simp
next
  case (Cons x xs)
  then obtain n ns' where ns: "ns = n # ns'" by (cases ns) auto
  with Cons.prems have hx: "(case h x of None \<Rightarrow> NaN | Some v \<Rightarrow> v) = Str n"
    and rest: "map (\<lambda>r. case h r of None \<Rightarrow> NaN | Some v \<Rightarrow> v) xs = map Str ns'"
    by simp_all
  from hx have "h x = Some (Str n)" by (cases "h x") simp_all
  with Cons.IH [OF rest] ns show ?case by simp
qed

text \<open>
  C6. When an assay is built with the delimiter "_" (which is not the constant
  \<^verbatim>\<open>DELIM_AS_IS\<close>), the values of the index field in the records are all strings, the
  sample names, and the index of the metadata table is these names with every \<^verbatim>\<open>.\<close> and
  \<^verbatim>\<open>-\<close> replaced by \<^verbatim>\<open>_\<close> (an \<^verbatim>\<open>_\<close> is replaced by itself). Rewriting the index a second
  time returns it unchanged.
\<close>

theorem index_delimiter_rewrite:
  assumes "assay_init re DELIM_AS_IS nm json urls sp index_by ''_'' = Inr a"
    and "DELIM_AS_IS \<noteq> ''_''"
  shows "\<exists>field sample_names.
           priv_field_indexed_by a = Some field
         \<and> map (\<lambda>r. map_of r field) (raw json) = map (\<lambda>n. Some (Str n)) sample_names
         \<and> index (raw_metadata a)
             = map (\<lambda>n. Str (map (\<lambda>c. if c = CHR ''.'' \<or> c = CHR ''-'' then CHR ''_'' else c) n))
                 sample_names
         \<and> map_index (sub_delim ''_'') (index (raw_metadata a)) = Inr (index (raw_metadata a))"
proof -
  from assay_init_InrD [OF assms(1)] assms(2) obtain table field indexed labels where
    t: "concat_series (raw json) = Inr table" and
    s: "set_index table field = Inr indexed" and
    m: "map_index (sub_delim ''_'') (index indexed) = Inr labels" and
    f: "priv_field_indexed_by a = field" and
    r: "raw_metadata a = indexed\<lparr>index := labels\<rparr>"
    by (auto split: if_splits)
  from set_index_InrD [OF s] obtain fld where
    fld: "field = Some fld" and c: "fld \<in> set (columns table)" and
    i: "index indexed = map (\<lambda>row. cell_of (columns table) row fld) (cells table)"
    by blast
  have i': "index indexed = map (\<lambda>r. case map_of r fld of None \<Rightarrow> NaN | Some v \<Rightarrow> v) (raw json)"
    unfolding i concat_series_InrD [OF t] using c by (simp add: cell_of_map)
  from map_index_InrD [OF m] obtain ns where
    ns: "index indexed = map Str ns" and l: "labels = map (\<lambda>n. Str (sub_delim ''_'' n)) ns"
    by blast
  from ns i' have 1: "map (\<lambda>r. map_of r fld) (raw json) = map (\<lambda>n. Some (Str n)) ns"
    by (intro map_case_Str) simp
  have ix: "index (raw_metadata a) = map (\<lambda>n. Str (sub_delim ''_'' n)) ns"
    by (simp add: r l)
  have 2: "index (raw_metadata a)
      = map (\<lambda>n. Str (map (\<lambda>c. if c = CHR ''.'' \<or> c = CHR ''-'' then CHR ''_'' else c) n)) ns"
    unfolding ix sub_delim_underscore ..
  have "map_index (sub_delim ''_'') (index (raw_metadata a))
      = Inr (map (\<lambda>n. Str (sub_delim ''_'' n)) (map (sub_delim ''_'') ns))"
    unfolding ix using map_index_Str [of "sub_delim ''_''" "map (sub_delim ''_'') ns"]
    by (simp add: comp_def)
  then have 3: "map_index (sub_delim ''_'') (index (raw_metadata a)) = Inr (index (raw_metadata a))"
    unfolding ix by (simp add: comp_def sub_delim_idem)
  from f fld have 0: "priv_field_indexed_by a = Some fld" by simp
  from 0 1 2 3 show ?thesis by (intro exI conjI)
qed

text \<open>The example: "GSM1.a-1" becomes "GSM1_a_1", and "GSM2_b" stays.\<close>

theorem index_delimiter_rewrite_witness:
  "assay_init re_fragment ''as.is'' ''a_GLDS-1'' example_json example_urls ''.genelab''
       ''Sample Name'' ''_'' = Inr example_assay
   \<and> ''as.is'' \<noteq> ''_''
   \<and> map (\<lambda>r. map_of r ''a100000'') (raw example_json) = [Some (Str ''GSM1.a-1''), Some (Str ''GSM2_b'')]
   \<and> index (raw_metadata example_assay) = [Str ''GSM1_a_1'', Str ''GSM2_b'']
   \<and> map_index (sub_delim ''_'') (index (raw_metadata example_assay))
       = Inr (index (raw_metadata example_assay))"
proof -
  have c: "assay_init re_fragment ''as.is'' ''a_GLDS-1'' example_json example_urls ''.genelab''
       ''Sample Name'' ''_'' = Inr example_assay"
    by code_simp
  have d: "''as.is'' \<noteq> ''_''" by simp
  have r: "map (\<lambda>r. map_of r ''a100000'') (raw example_json)
      = [Some (Str ''GSM1.a-1''), Some (Str ''GSM2_b'')]" by code_simp
  have i: "index (raw_metadata example_assay) = [Str ''GSM1_a_1'', Str ''GSM2_b'']" by code_simp
  from index_delimiter_rewrite [OF c d]
  have "map_index (sub_delim ''_'') (index (raw_metadata example_assay))
       = Inr (index (raw_metadata example_assay))" by blast
  with c d r i show ?thesis by blast
qed

section \<open>Row selection through the locator\<close>

text \<open>
  C3 fails here. With an empty collection of index patterns the locator calls
  \<^verbatim>\<open>set.union\<close> without an argument, which raises TypeError, for every assay and every
  regular expression engine; C3 wants an empty table. (\<^verbatim>\<open>AssayMetadata.__getitem__\<close> guards
  the same union with a leading \<^verbatim>\<open>set()\<close>.)
\<close>

theorem loc_getitem_empty_key: "loc_getitem re self [] = Inl TypeError"
  by (simp add: loc_getitem_def set_union_def)
section \<open>Filtering an assay collection\<close>

lemma summary_dataframe_columns:
  "summary_dataframe re factors_columns h self = Inr rd \<Longrightarrow>
     columns rd = [''name'', ''factors''] @ ASSAY_CHARACTERISTICS @ ASSAY_PROTOCOL_LIST"
  by (auto simp add: summary_dataframe_def ebind_def Let_def split: sum.splits)

lemma has_arrays_no_column:
  "''has_arrays'' \<notin> set ([''name'', ''factors''] @ ASSAY_CHARACTERISTICS @ ASSAY_PROTOCOL_LIST)"
  by (simp add: ASSAY_CHARACTERISTICS_def ASSAY_PROTOCOL_LIST_def)

lemma chosen_names_of_raises:
  "chosen_names_of re factors_columns h self factors has_arrays has_normalized_data
       has_processed_data =
     (case summary_dataframe re factors_columns h self of
        Inl e \<Rightarrow> Inl e
      | Inr rd \<Rightarrow> Inl (KeyError (Str ''has_arrays'')))"
proof (cases "summary_dataframe re factors_columns h self")
  case (Inl e)
  then show ?thesis by (simp add: chosen_names_of_def ebind_def)
next
  case (Inr rd)
  from summary_dataframe_columns [OF Inr] has_arrays_no_column
  have "getitem_column rd ''has_arrays'' = Inl (KeyError (Str ''has_arrays''))"
    by (simp only: getitem_column_def if_False)
  with Inr show ?thesis by (simp add: chosen_names_of_def ebind_def)
qed

text \<open>
  C1 fails here. \<^verbatim>\<open>choose\<close> never returns a collection, whatever the collection and the
  filters: when building the summary raises, that exception is the outcome; otherwise the
  summary has the columns "name", "factors", the three characteristics and the two
  protocols, and \<^verbatim>\<open>rd["has_arrays"]\<close> on line 556 raises KeyError. The heap is left as it
  was.
\<close>

theorem dispatcher_choose_raises:
  "dispatcher_choose re factors_columns h self factors has_arrays has_normalized_data
       has_processed_data =
     (case summary_dataframe re factors_columns h self of
        Inl e \<Rightarrow> (Inl e, h)
      | Inr rd \<Rightarrow> (Inl (KeyError (Str ''has_arrays'')), h))"
  by (simp add: dispatcher_choose_def chosen_names_of_raises split: sum.splits)

text \<open>
  C2 fails here. The claim has \<^verbatim>\<open>choose\<close> return a new collection that holds the objects of
  the original. For every collection and all filters the call raises instead, with the
  exception of building the summary or with the KeyError of line 556 (the summary has no
  column "has_arrays"): no collection is returned. The objects of the heap are as they
  were.
\<close>

theorem choose_returns_no_collection:
  "isl (fst (dispatcher_choose re factors_columns h self factors has_arrays
               has_normalized_data has_processed_data))
   \<and> snd (dispatcher_choose re factors_columns h self factors has_arrays
             has_normalized_data has_processed_data) = h"
  by (simp add: dispatcher_choose_def chosen_names_of_raises split: sum.splits)

section \<open>The derived-data loader\<close>

lemma collect_map_Inr: "collect (map (\<lambda>x. Inr (g x)) xs) = Inr (map g xs)"
  by (induction xs) simp_all

lemma split_cells_strings:
  "collect (map (split_cell re) (map Str cs))
     = Inr (map (\<lambda>s. remdups (split re comma_regex s)) cs)"
proof -
  have "map (split_cell re) (map Str cs)
      = map (\<lambda>s. Inr (remdups (split re comma_regex s))) cs"
    by (simp add: split_cell_def)
  then show ?thesis by (simp only: collect_map_Inr)
qed

lemma split_cells_strings_comp:
  "collect (map (split_cell re \<circ> Str) cs)
     = Inr (map (\<lambda>s. remdups (split re comma_regex s)) cs)"
  using split_cells_strings [of re cs] by simp

lemma candidates_conv:
  "{fn. (\<exists>s \<in> set cs. fn \<in> set (sp s)) \<and> P fn}
     = {fn \<in> set (remdups (concat (map (\<lambda>s. remdups (sp s)) cs))). P fn}"
  by auto

lemma read_data_from_no_rows:
  assumes "metadata_getitem re self [field_title] = Inr meta_files"
    and "len_frame meta_files = 0"
  shows "read_data_from re io D self field_title blacklist_regex force_redownload
           translate_sample_names data_columns w = (Inr None, w)"
  using assms by (simp add: read_data_from_def)

lemma metadata_getitem_no_title:
  assumes "match_field_titles self field_title IGNORECASE (fullmatch re) = []"
  shows "metadata_getitem re self [field_title] = Inr DataFrame"
  using assms by (simp add: metadata_getitem_def)

lemma read_data_from_rows:
  assumes "metadata_getitem re self [field_title] = Inr meta_files"
    and "len_frame meta_files \<noteq> 0"
    and "values_flatten meta_files = map Str cs" and "cs \<noteq> []"
  shows "read_data_from re io D self field_title blacklist_regex force_redownload
           translate_sample_names data_columns w =
     (let target_filenames = target_filenames_of re blacklist_regex
            (remdups (concat (map (\<lambda>s. remdups (split re comma_regex s)) cs)))
      in if length target_filenames = 0 then
           (Inl (GeneLabFileException ''No suitable normalized annotated data files found''), w)
         else if length target_filenames > 1 then
           (Inl (GeneLabFileException ''Multiple normalized annotated data files found''), w)
         else
           (case read_target re io D self (hd target_filenames) force_redownload
                   translate_sample_names data_columns w of
              (Inl e, w') \<Rightarrow> (Inl e, w')
            | (Inr data, w') \<Rightarrow> (Inr (Some data), w')))"
  using assms by (simp add: read_data_from_def split_cells_strings_comp set_union_def)

text \<open>
  C5, as the code has it. In \<^verbatim>\<open>_read_data_from\<close>: a field title that matches no title, and
  a selection without rows, give None and leave the world alone. When the selected cells
  are strings, the candidates are the names obtained by splitting every cell at its commas
  that the blacklist does not match: no candidate raises "No suitable normalized annotated
  data files found", and more than one raises "Multiple normalized annotated data files
  found". Exactly one candidate is first looked up in the file listing, as a search
  pattern: the exception of \<^verbatim>\<open>_get_file_url\<close> (several listed names match) is the outcome,
  and nothing is fetched. Otherwise \<^verbatim>\<open>fetch_file\<close> is called for the name with the URL
  found (None when no listed name matches), the storage directory of the assay and
  \<^verbatim>\<open>update=force_redownload\<close>; its exception is the outcome, and when it returns,
  \<^verbatim>\<open>read_csv\<close> parses the file of that name in the storage directory; its exception is the
  outcome, and when it returns a table, the outcome is that table with the delimiters of
  its column labels rewritten (unless the delimiter is \<open>DELIM_AS_IS\<close>; stated for labels
  that are strings and a delimiter without a backslash); when a translation of the sample
  names is asked for, it comes before the rewriting, and the exception of either is the
  outcome.
\<close>

theorem read_data_from_candidates:
  "(let result = read_data_from re io DELIM_AS_IS self field_title blacklist_regex
                   force_redownload translate_sample_names data_columns w
    in (match_field_titles self field_title IGNORECASE (fullmatch re) = [] \<longrightarrow>
          result = (Inr None, w))
     \<and> (\<forall>meta_files. metadata_getitem re self [field_title] = Inr meta_files
              \<and> len_frame meta_files = 0 \<longrightarrow> result = (Inr None, w))
     \<and> (\<forall>meta_files cs. metadata_getitem re self [field_title] = Inr meta_files
              \<and> len_frame meta_files \<noteq> 0
              \<and> values_flatten meta_files = map Str cs \<and> cs \<noteq> [] \<longrightarrow>
          (let candidates = {fn. (\<exists>s \<in> set cs. fn \<in> set (split re comma_regex s))
                                  \<and> \<not> search re NOFLAGS blacklist_regex fn}
           in (candidates = {} \<longrightarrow>
                 result = (Inl (GeneLabFileException
                                  ''No suitable normalized annotated data files found''), w))
            \<and> (card candidates > 1 \<longrightarrow>
                 result = (Inl (GeneLabFileException
                                  ''Multiple normalized annotated data files found''), w))
            \<and> (\<forall>fn. candidates = {fn} \<longrightarrow>
                 (\<forall>e. get_file_url re self fn = Inl e \<longrightarrow> result = (Inl e, w))
               \<and> (\<forall>url. get_file_url re self fn = Inr url \<longrightarrow>
                    (case fetch_file io fn url (storage self) force_redownload True w of
                       (Inl e, w1) \<Rightarrow> result = (Inl e, w1)
                     | (Inr target_file, w1) \<Rightarrow>
                         (case read_csv io (join (storage self) fn) w1 of
                            (Inl e, w2) \<Rightarrow> result = (Inl e, w2)
                          | (Inr data, w2) \<Rightarrow>
                              (\<not> translate_sample_names \<longrightarrow>
                                 (priv_name_delim self = DELIM_AS_IS \<longrightarrow>
                                    result = (Inr (Some data), w2))
                               \<and> (\<forall>labels. priv_name_delim self \<noteq> DELIM_AS_IS
                                      \<and> CHR 0x5C \<notin> set (priv_name_delim self)
                                      \<and> column_labels data = map Str labels \<longrightarrow>
                                    result =
                                      (Inr (Some (data\<lparr>column_labels :=
                                         map (\<lambda>f. Str (sub_delim (priv_name_delim self) f))
                                           labels\<rparr>)), w2)))
                            \<and> (translate_sample_names
                               \<and> (priv_name_delim self = DELIM_AS_IS
                                  \<or> CHR 0x5C \<notin> set (priv_name_delim self)) \<longrightarrow>
                                 result =
                                   (case ebind (translate_data_sample_names re self data
                                                  data_columns)
                                           (rewrite_columns DELIM_AS_IS self) of
                                      Inl e \<Rightarrow> (Inl e, w2)
                                    | Inr table \<Rightarrow> (Inr (Some table), w2))))))))))"
proof -
  define result where "result = read_data_from re io DELIM_AS_IS self field_title
      blacklist_regex force_redownload translate_sample_names data_columns w"
  define target where "target = (\<lambda>fn. read_target re io DELIM_AS_IS self fn force_redownload
      translate_sample_names data_columns w)"
  define outcome where "outcome = (\<lambda>fn.
      (\<forall>e. get_file_url re self fn = Inl e \<longrightarrow> result = (Inl e, w))
    \<and> (\<forall>url. get_file_url re self fn = Inr url \<longrightarrow>
         (case fetch_file io fn url (storage self) force_redownload True w of
            (Inl e, w1) \<Rightarrow> result = (Inl e, w1)
          | (Inr target_file, w1) \<Rightarrow>
              (case read_csv io (join (storage self) fn) w1 of
                 (Inl e, w2) \<Rightarrow> result = (Inl e, w2)
               | (Inr data, w2) \<Rightarrow>
                   (\<not> translate_sample_names \<longrightarrow>
                      (priv_name_delim self = DELIM_AS_IS \<longrightarrow> result = (Inr (Some data), w2))
                    \<and> (\<forall>labels. priv_name_delim self \<noteq> DELIM_AS_IS
                           \<and> CHR 0x5C \<notin> set (priv_name_delim self)
                           \<and> column_labels data = map Str labels \<longrightarrow>
                         result =
                           (Inr (Some (data\<lparr>column_labels :=
                              map (\<lambda>f. Str (sub_delim (priv_name_delim self) f)) labels\<rparr>)), w2)))
                 \<and> (translate_sample_names
                    \<and> (priv_name_delim self = DELIM_AS_IS
                       \<or> CHR 0x5C \<notin> set (priv_name_delim self)) \<longrightarrow>
                      result =
                        (case ebind (translate_data_sample_names re self data data_columns)
                                (rewrite_columns DELIM_AS_IS self) of
                           Inl e \<Rightarrow> (Inl e, w2)
                         | Inr table \<Rightarrow> (Inr (Some table), w2)))))))"
  have a: "match_field_titles self field_title IGNORECASE (fullmatch re) = [] \<longrightarrow>
          result = (Inr None, w)"
  proof
    assume "match_field_titles self field_title IGNORECASE (fullmatch re) = []"
    then have "metadata_getitem re self [field_title] = Inr DataFrame"
      by (rule metadata_getitem_no_title)
    moreover have "len_frame DataFrame = 0" by (simp add: len_frame_def DataFrame_def)
    ultimately show "result = (Inr None, w)" unfolding result_def by (rule read_data_from_no_rows)
  qed
  have b: "\<forall>meta_files. metadata_getitem re self [field_title] = Inr meta_files
              \<and> len_frame meta_files = 0 \<longrightarrow> result = (Inr None, w)"
  proof (intro allI impI, elim conjE)
    fix meta_files
    assume "metadata_getitem re self [field_title] = Inr meta_files"
      and "len_frame meta_files = 0"
    then show "result = (Inr None, w)" unfolding result_def by (rule read_data_from_no_rows)
  qed
  have c: "\<forall>meta_files cs. metadata_getitem re self [field_title] = Inr meta_files
              \<and> len_frame meta_files \<noteq> 0
              \<and> values_flatten meta_files = map Str cs \<and> cs \<noteq> [] \<longrightarrow>
          (let candidates = {fn. (\<exists>s \<in> set cs. fn \<in> set (split re comma_regex s))
                                  \<and> \<not> search re NOFLAGS blacklist_regex fn}
           in (candidates = {} \<longrightarrow>
                 result = (Inl (GeneLabFileException
                                  ''No suitable normalized annotated data files found''), w))
            \<and> (card candidates > 1 \<longrightarrow>
                 result = (Inl (GeneLabFileException
                                  ''Multiple normalized annotated data files found''), w))
            \<and> (\<forall>fn. candidates = {fn} \<longrightarrow> outcome fn))"
  proof (intro allI impI, elim conjE)
    fix meta_files cs
    assume m: "metadata_getitem re self [field_title] = Inr meta_files"
      and l: "len_frame meta_files \<noteq> 0"
      and v: "values_flatten meta_files = map Str cs" and ne: "cs \<noteq> []"
    define filenames where
      "filenames = remdups (concat (map (\<lambda>s. remdups (split re comma_regex s)) cs))"
    define P where "P = (\<lambda>fn. \<not> search re NOFLAGS blacklist_regex fn)"
    define tf where "tf = remdups (filter P filenames)"
    define candidates where
      "candidates = {fn. (\<exists>s \<in> set cs. fn \<in> set (split re comma_regex s)) \<and> P fn}"
    have cand: "candidates = {fn \<in> set filenames. P fn}"
      unfolding candidates_def filenames_def by (rule candidates_conv)
    have tf_eq: "target_filenames_of re blacklist_regex filenames = tf"
      by (simp add: target_filenames_of_def tf_def P_def)
    have len: "length tf = card candidates"
      unfolding tf_def cand by (rule length_remdups_filter)
    have g: "result =
       (if length tf = 0 then
           (Inl (GeneLabFileException ''No suitable normalized annotated data files found''), w)
         else if length tf > 1 then
           (Inl (GeneLabFileException ''Multiple normalized annotated data files found''), w)
         else
           (case target (hd tf) of
              (Inl e, w') \<Rightarrow> (Inl e, w')
            | (Inr data, w') \<Rightarrow> (Inr (Some data), w')))"
      unfolding result_def target_def read_data_from_rows [OF m l v ne] filenames_def [symmetric]
        tf_eq Let_def ..
    have c1: "candidates = {} \<longrightarrow>
                 result = (Inl (GeneLabFileException
                                  ''No suitable normalized annotated data files found''), w)"
      using g len by simp
    have c2: "card candidates > 1 \<longrightarrow>
                 result = (Inl (GeneLabFileException
                                  ''Multiple normalized annotated data files found''), w)"
      using g len by simp
    have c3: "\<forall>fn. candidates = {fn} \<longrightarrow> outcome fn"
    proof (intro allI impI)
      fix fn assume "candidates = {fn}"
      then have "{x \<in> set filenames. P x} = {fn}" by (simp only: cand)
      then have "tf = [fn]" unfolding tf_def by (rule remdups_filter_singleton)
      then have r: "result = (case target fn of
                                (Inl e, w') \<Rightarrow> (Inl e, w')
                              | (Inr data, w') \<Rightarrow> (Inr (Some data), w'))"
        by (simp add: g)
      show "outcome fn"
        unfolding outcome_def r target_def read_target_def
        by (auto simp add: rewrite_columns_def map_index_Str ebind_def
              split: sum.splits prod.splits)
    qed
    from c1 c2 c3 show "(let candidates = {fn. (\<exists>s \<in> set cs. fn \<in> set (split re comma_regex s))
                                  \<and> \<not> search re NOFLAGS blacklist_regex fn}
           in (candidates = {} \<longrightarrow>
                 result = (Inl (GeneLabFileException
                                  ''No suitable normalized annotated data files found''), w))
            \<and> (card candidates > 1 \<longrightarrow>
                 result = (Inl (GeneLabFileException
                                  ''Multiple normalized annotated data files found''), w))
            \<and> (\<forall>fn. candidates = {fn} \<longrightarrow> outcome fn))"
      unfolding Let_def candidates_def P_def by (intro conjI)
  qed
  show ?thesis using a b c unfolding Let_def result_def outcome_def by (intro conjI)
qed

text \<open>
  C5 as stated has every single candidate fetched and parsed. In the study that lists a
  checksum beside the data file, the cells of the example assay leave the one candidate
  GLDS-1_out.txt; looked up as a search pattern it is found in two listed names, and the
  call raises "Multiple file URLs match name": nothing is requested, and the store is as
  empty as before.
\<close>

theorem single_candidate_not_fetched_counterexample:
  "(case metadata_getitem re_fragment checksum_assay [''.*normalized data files.*''] of
      Inl e \<Rightarrow> []
    | Inr meta_files \<Rightarrow> values_flatten meta_files)
     = [Str ''GLDS-1_out.txt, GLDS-1_out.rda.gz'', Str ''GLDS-1_out.txt'']
   \<and> target_filenames_of re_fragment rda_regex
         (remdups (concat (map (\<lambda>s. remdups (split re_fragment comma_regex s))
                             [''GLDS-1_out.txt, GLDS-1_out.rda.gz'', ''GLDS-1_out.txt''])))
     = [''GLDS-1_out.txt'']
   \<and> get_file_url re_fragment checksum_assay ''GLDS-1_out.txt''
     = Inl (GeneLabJSONException ''Multiple file URLs match name'')
   \<and> read_data_from re_fragment example_io ''as.is'' checksum_assay ''.*normalized data files.*''
         rda_regex False False ''sample name'' []
     = (Inl (GeneLabJSONException ''Multiple file URLs match name''), [])"
  by code_simp

text \<open>
  The scenario of the specification: the cells "GLDS-1_out.txt, GLDS-1_out.rda.gz" and
  "GLDS-1_out.txt" leave the one candidate GLDS-1_out.txt, whose URL the listing gives; the
  file is fetched into the storage directory and parsed, and the table comes back with the
  delimiters of its column labels rewritten. Cells that list archives only raise "No
  suitable..."; and a title pattern that matches no title gives None.
\<close>

theorem read_data_from_candidates_witness:
  "read_data_from re_fragment example_io ''as.is'' example_assay ''.*normalized data files.*''
       rda_regex False False ''sample name'' []
     = (Inr (Some example_table), fetched_store)
   \<and> read_data_from re_fragment example_io ''as.is'' archive_only_assay
       ''.*normalized data files.*'' rda_regex False False ''sample name'' []
     = (Inl (GeneLabFileException ''No suitable normalized annotated data files found''), [])
   \<and> read_data_from re_fragment example_io ''as.is'' example_assay
       ''.*normalized annotated data files.*'' rda_regex False False ''sample name'' []
     = (Inr None, [])"
proof (intro conjI)
  define mf where "mf = \<lparr>columns = [''a100002''], index = [Str ''GSM1_a_1'', Str ''GSM2_b''],
      cells = [[Str ''GLDS-1_out.txt, GLDS-1_out.rda.gz''], [Str ''GLDS-1_out.txt'']]\<rparr>"
  define cs where "cs = [''GLDS-1_out.txt, GLDS-1_out.rda.gz'', ''GLDS-1_out.txt'']"
  have m: "metadata_getitem re_fragment example_assay [''.*normalized data files.*''] = Inr mf"
    unfolding mf_def by code_simp
  have l: "len_frame mf \<noteq> 0" unfolding mf_def by code_simp
  have v: "values_flatten mf = map Str cs" unfolding mf_def cs_def by code_simp
  have ne: "cs \<noteq> []" unfolding cs_def by simp
  have "filter (\<lambda>fn. \<not> search re_fragment NOFLAGS rda_regex fn)
          (remdups (concat (map (\<lambda>s. remdups (split re_fragment comma_regex s)) cs)))
      = [''GLDS-1_out.txt'']"
    unfolding cs_def by code_simp
  then have c: "{fn. (\<exists>s \<in> set cs. fn \<in> set (split re_fragment comma_regex s))
                     \<and> \<not> search re_fragment NOFLAGS rda_regex fn} = {''GLDS-1_out.txt''}"
    unfolding candidates_conv Collect_set_filter by simp
  have u: "get_file_url re_fragment example_assay ''GLDS-1_out.txt'' = Inr (Some ''url3'')"
    by code_simp
  have f: "fetch_file example_io ''GLDS-1_out.txt'' (Some ''url3'') (storage example_assay)
             False True []
      = (Inr ''.genelab/a_GLDS-1/GLDS-1_out.txt'', fetched_store)"
    by code_simp
  have p: "read_csv example_io (join (storage example_assay) ''GLDS-1_out.txt'') fetched_store
      = (Inr parsed_table, fetched_store)"
    by code_simp
  have d: "priv_name_delim example_assay \<noteq> ''as.is''
           \<and> CHR 0x5C \<notin> set (priv_name_delim example_assay)
           \<and> column_labels parsed_table = map Str [''GSM1.a-1'', ''GSM2_b'']"
    by code_simp
  have e: "parsed_table\<lparr>column_labels :=
             map (\<lambda>f. Str (sub_delim (priv_name_delim example_assay) f))
               [''GSM1.a-1'', ''GSM2_b'']\<rparr> = example_table"
    by code_simp
  have nf: "\<not> False" by simp
  note T = read_data_from_candidates [where re = re_fragment and io = example_io
      and DELIM_AS_IS = "''as.is''"
      and self = example_assay and field_title = "''.*normalized data files.*''"
      and blacklist_regex = rda_regex and force_redownload = False
      and translate_sample_names = False and data_columns = "''sample name''" and w = "[]",
      unfolded Let_def]
  note T3 = T [THEN conjunct2, THEN conjunct2, rule_format, OF conjI [OF m conjI [OF l conjI [OF v ne]]]]
  note T4 = T3 [THEN conjunct2, THEN conjunct2, rule_format, OF c]
  note T5 = T4 [THEN conjunct2, rule_format, OF u, unfolded f prod.case sum.case p]
  note T6 = T5 [THEN conjunct1, rule_format, OF nf]
  note T7 = T6 [THEN conjunct2, rule_format, OF d]
  show "read_data_from re_fragment example_io ''as.is'' example_assay
       ''.*normalized data files.*'' rda_regex False False ''sample name'' []
     = (Inr (Some example_table), fetched_store)"
    using T7 unfolding e .
next
  define mf where "mf = \<lparr>columns = [''a100002''], index = [Str ''GSM1_a_1'', Str ''GSM2_b''],
      cells = [[Str ''GLDS-1_out.rda.gz, GLDS-1_out.rdata''], [Str ''GLDS-1_out.rda.gz'']]\<rparr>"
  define cs where "cs = [''GLDS-1_out.rda.gz, GLDS-1_out.rdata'', ''GLDS-1_out.rda.gz'']"
  have m: "metadata_getitem re_fragment archive_only_assay [''.*normalized data files.*'']
      = Inr mf"
    unfolding mf_def by code_simp
  have l: "len_frame mf \<noteq> 0" unfolding mf_def by code_simp
  have v: "values_flatten mf = map Str cs" unfolding mf_def cs_def by code_simp
  have ne: "cs \<noteq> []" unfolding cs_def by simp
  have "filter (\<lambda>fn. \<not> search re_fragment NOFLAGS rda_regex fn)
          (remdups (concat (map (\<lambda>s. remdups (split re_fragment comma_regex s)) cs))) = []"
    unfolding cs_def by code_simp
  then have c: "{fn. (\<exists>s \<in> set cs. fn \<in> set (split re_fragment comma_regex s))
                     \<and> \<not> search re_fragment NOFLAGS rda_regex fn} = {}"
    unfolding candidates_conv Collect_set_filter by simp
  note T = read_data_from_candidates [where re = re_fragment and io = example_io
      and DELIM_AS_IS = "''as.is''"
      and self = archive_only_assay and field_title = "''.*normalized data files.*''"
      and blacklist_regex = rda_regex and force_redownload = False
      and translate_sample_names = False and data_columns = "''sample name''" and w = "[]",
      unfolded Let_def]
  note T3 = T [THEN conjunct2, THEN conjunct2, rule_format, OF conjI [OF m conjI [OF l conjI [OF v ne]]]]
  show "read_data_from re_fragment example_io ''as.is'' archive_only_assay
       ''.*normalized data files.*'' rda_regex False False ''sample name'' []
     = (Inl (GeneLabFileException ''No suitable normalized annotated data files found''), [])"
    by (rule T3 [THEN conjunct1, rule_format, OF c])
next
  have n: "match_field_titles example_assay ''.*normalized annotated data files.*'' IGNORECASE
             (fullmatch re_fragment) = []"
    by code_simp
  note T = read_data_from_candidates [where re = re_fragment and io = example_io
      and DELIM_AS_IS = "''as.is''"
      and self = example_assay and field_title = "''.*normalized annotated data files.*''"
      and blacklist_regex = rda_regex and force_redownload = False
      and translate_sample_names = False and data_columns = "''sample name''" and w = "[]",
      unfolded Let_def]
  show "read_data_from re_fragment example_io ''as.is'' example_assay
       ''.*normalized annotated data files.*'' rda_regex False False ''sample name'' []
     = (Inr None, [])"
    by (rule T [THEN conjunct1, rule_format, OF n])
qed

section \<open>The cache of derived data\<close>

lemma run_query_keeps_normalized:
  assumes c: "priv_normalized_data (fst s) = Some data"
    and n: "\<forall>f t dc. q \<noteq> Get_normalized_data f t dc"
  shows "priv_normalized_data (fst (run_query read s q)) = Some data"
proof (cases q)
  case (Get_normalized_data f t dc)
  with n show ?thesis by blast
next
  case Normalized_data
  with c show ?thesis by (cases s) (simp add: normalized_data_def)
next
  case (Get_processed_data f t dc)
  with c show ?thesis
    by (cases s) (simp add: get_processed_data_def split: prod.splits sum.splits)
next
  case Processed_data
  with c show ?thesis
    by (cases s)
       (simp add: processed_data_def get_processed_data_def
          split: prod.splits sum.splits option.splits)
qed

lemma run_query_keeps_processed:
  assumes c: "priv_processed_data (fst s) = Some data"
    and n: "\<forall>f t dc. q \<noteq> Get_processed_data f t dc"
  shows "priv_processed_data (fst (run_query read s q)) = Some data"
proof (cases q)
  case (Get_processed_data f t dc)
  with n show ?thesis by blast
next
  case Processed_data
  with c show ?thesis by (cases s) (simp add: processed_data_def)
next
  case (Get_normalized_data f t dc)
  with c show ?thesis
    by (cases s) (simp add: get_normalized_data_def split: prod.splits sum.splits)
next
  case Normalized_data
  with c show ?thesis
    by (cases s)
       (simp add: normalized_data_def get_normalized_data_def
          split: prod.splits sum.splits option.splits)
qed

lemma run_queries_keeps_normalized:
  assumes "priv_normalized_data (fst s) = Some data"
    and "\<forall>q \<in> set qs. \<forall>f t dc. q \<noteq> Get_normalized_data f t dc"
  shows "priv_normalized_data (fst (run_queries read qs s)) = Some data"
  using assms unfolding run_queries_def
proof (induction qs arbitrary: s)
  case Nil
  then show ?case by simp
next
  case (Cons q qs)
  from Cons.prems have "priv_normalized_data (fst (run_query read s q)) = Some data"
    by (intro run_query_keeps_normalized) simp_all
  moreover from Cons.prems have "\<forall>q \<in> set qs. \<forall>f t dc. q \<noteq> Get_normalized_data f t dc"
    by simp
  ultimately have "priv_normalized_data (fst (foldl (run_query read) (run_query read s q) qs))
      = Some data"
    by (rule Cons.IH)
  then show ?case by simp
qed

lemma run_queries_keeps_processed:
  assumes "priv_processed_data (fst s) = Some data"
    and "\<forall>q \<in> set qs. \<forall>f t dc. q \<noteq> Get_processed_data f t dc"
  shows "priv_processed_data (fst (run_queries read qs s)) = Some data"
  using assms unfolding run_queries_def
proof (induction qs arbitrary: s)
  case Nil
  then show ?case by simp
next
  case (Cons q qs)
  from Cons.prems have "priv_processed_data (fst (run_query read s q)) = Some data"
    by (intro run_query_keeps_processed) simp_all
  moreover from Cons.prems have "\<forall>q \<in> set qs. \<forall>f t dc. q \<noteq> Get_processed_data f t dc"
    by simp
  ultimately have "priv_processed_data (fst (foldl (run_query read) (run_query read s q) qs))
      = Some data"
    by (rule Cons.IH)
  then show ?case by simp
qed

lemma get_normalized_data_SomeD:
  "get_normalized_data read self f t dc w = (Inr (Some data), self', w')
     \<Longrightarrow> priv_normalized_data self' = Some data"
  by (auto simp add: get_normalized_data_def split: prod.splits sum.splits)

lemma get_processed_data_SomeD:
  "get_processed_data read self f t dc w = (Inr (Some data), self', w')
     \<Longrightarrow> priv_processed_data self' = Some data"
  by (auto simp add: get_processed_data_def split: prod.splits sum.splits)

lemma get_normalized_data_NoneD:
  "get_normalized_data read self f t dc w = (Inr None, self', w')
     \<Longrightarrow> priv_normalized_data self' = None"
  by (auto simp add: get_normalized_data_def split: prod.splits sum.splits)

lemma get_processed_data_NoneD:
  "get_processed_data read self f t dc w = (Inr None, self', w')
     \<Longrightarrow> priv_processed_data self' = None"
  by (auto simp add: get_processed_data_def split: prod.splits sum.splits)

text \<open>
  C8, as the code has it. After a fetch of normalized data that returned a table, the table
  is the cache; a plain access to the property returns it and changes neither the assay nor
  the world, whatever \<^verbatim>\<open>_read_data_from\<close> would do, so the method is not run; and the cache
  is still that table after any sequence of calls without an explicit
  \<^verbatim>\<open>get_normalized_data\<close>. After a fetch that returned None (no data), the cache is None and
  a plain access is a fetch with the default arguments: the method runs again. The same
  holds for the processed data.
\<close>

theorem cache_after_fetch:
  "(get_normalized_data read self f t dc w = (Inr (Some data), self', w') \<longrightarrow>
        priv_normalized_data self' = Some data
      \<and> normalized_data read' self' w'' = (Inr (Some data), self', w'')
      \<and> ((\<forall>q \<in> set qs. \<forall>f t dc. q \<noteq> Get_normalized_data f t dc) \<longrightarrow>
           priv_normalized_data (fst (run_queries read' qs (self', w''))) = Some data))
   \<and> (get_processed_data read self f t dc w = (Inr (Some data), self', w') \<longrightarrow>
        priv_processed_data self' = Some data
      \<and> processed_data read' self' w'' = (Inr (Some data), self', w'')
      \<and> ((\<forall>q \<in> set qs. \<forall>f t dc. q \<noteq> Get_processed_data f t dc) \<longrightarrow>
           priv_processed_data (fst (run_queries read' qs (self', w''))) = Some data))
   \<and> (get_normalized_data read self f t dc w = (Inr None, self', w') \<longrightarrow>
        normalized_data read' self' w''
          = get_normalized_data read' self' False False ''sample name'' w'')
   \<and> (get_processed_data read self f t dc w = (Inr None, self', w') \<longrightarrow>
        processed_data read' self' w''
          = get_processed_data read' self' False False ''sample name'' w'')"
proof (intro conjI impI)
  assume g: "get_normalized_data read self f t dc w = (Inr (Some data), self', w')"
  then show c: "priv_normalized_data self' = Some data" by (rule get_normalized_data_SomeD)
  then show "normalized_data read' self' w'' = (Inr (Some data), self', w'')"
    by (simp add: normalized_data_def)
  assume "\<forall>q \<in> set qs. \<forall>f t dc. q \<noteq> Get_normalized_data f t dc"
  with c show "priv_normalized_data (fst (run_queries read' qs (self', w''))) = Some data"
    by (intro run_queries_keeps_normalized) simp_all
next
  assume g: "get_processed_data read self f t dc w = (Inr (Some data), self', w')"
  then show c: "priv_processed_data self' = Some data" by (rule get_processed_data_SomeD)
  then show "processed_data read' self' w'' = (Inr (Some data), self', w'')"
    by (simp add: processed_data_def)
  assume "\<forall>q \<in> set qs. \<forall>f t dc. q \<noteq> Get_processed_data f t dc"
  with c show "priv_processed_data (fst (run_queries read' qs (self', w''))) = Some data"
    by (intro run_queries_keeps_processed) simp_all
next
  assume "get_normalized_data read self f t dc w = (Inr None, self', w')"
  then have "priv_normalized_data self' = None" by (rule get_normalized_data_NoneD)
  then show "normalized_data read' self' w''
          = get_normalized_data read' self' False False ''sample name'' w''"
    by (simp add: normalized_data_def)
next
  assume "get_processed_data read self f t dc w = (Inr None, self', w')"
  then have "priv_processed_data self' = None" by (rule get_processed_data_NoneD)
  then show "processed_data read' self' w''
          = get_processed_data read' self' False False ''sample name'' w''"
    by (simp add: processed_data_def)
qed

text \<open>
  C8 as stated covers every completed fetch. The example assay has no column of processed
  data: the fetch completes with None, after one run of \<^verbatim>\<open>_read_data_from\<close>, and the plain
  access that follows runs it a second time.
\<close>

theorem no_data_not_cached_counterexample:
  "get_processed_data (counted (read_data_from re_fragment example_io ''as.is'')) example_assay
       False False ''sample name'' (0, [])
     = (Inr None, example_assay, (1, []))
   \<and> processed_data (counted (read_data_from re_fragment example_io ''as.is'')) example_assay (1, [])
     = (Inr None, example_assay, (2, []))"
  by code_simp

text \<open>
  The example: the normalized data are fetched from GLDS-1_out.txt in one run; the plain
  access that follows returns the table and runs nothing, nor does a later access to the
  processed data touch the cache. The fetch of the processed data finds none, and the
  access after it is a fetch.
\<close>

theorem cache_after_fetch_witness:
  "get_normalized_data (counted (read_data_from re_fragment example_io ''as.is'')) example_assay
       False False ''sample name'' (0, [])
     = (Inr (Some example_table), example_assay\<lparr>priv_normalized_data := Some example_table\<rparr>,
        (1, fetched_store))
   \<and> normalized_data (counted (read_data_from re_fragment example_io ''as.is''))
       (example_assay\<lparr>priv_normalized_data := Some example_table\<rparr>) (1, fetched_store)
     = (Inr (Some example_table), example_assay\<lparr>priv_normalized_data := Some example_table\<rparr>,
        (1, fetched_store))
   \<and> priv_normalized_data (fst (run_queries (counted (read_data_from re_fragment example_io ''as.is''))
         [Normalized_data, Processed_data]
         (example_assay\<lparr>priv_normalized_data := Some example_table\<rparr>, (1, fetched_store))))
     = Some example_table
   \<and> get_processed_data (counted (read_data_from re_fragment example_io ''as.is'')) example_assay
       True False ''sample name'' (0, [])
     = (Inr None, example_assay, (1, []))
   \<and> processed_data (counted (read_data_from re_fragment example_io ''as.is'')) example_assay (1, [])
     = get_processed_data (counted (read_data_from re_fragment example_io ''as.is'')) example_assay
         False False ''sample name'' (1, [])"
proof -
  define read where "read = counted (read_data_from re_fragment example_io ''as.is'')"
  define self' where "self' = example_assay\<lparr>priv_normalized_data := Some example_table\<rparr>"
  have g: "get_normalized_data read example_assay False False ''sample name'' (0, [])
     = (Inr (Some example_table), self', (1, fetched_store))"
    unfolding read_def self'_def by code_simp
  have q: "\<forall>q \<in> set [Normalized_data, Processed_data]. \<forall>f t dc. q \<noteq> Get_normalized_data f t dc"
    by simp
  note T = cache_after_fetch [where read = read and read' = read and self = example_assay
      and f = False and t = False and dc = "''sample name''" and w = "(0, [])"
      and data = example_table and self' = self' and w' = "(1, fetched_store)"
      and w'' = "(1, fetched_store)" and qs = "[Normalized_data, Processed_data]",
      THEN conjunct1, rule_format, OF g]
  from T have "normalized_data read self' (1, fetched_store)
      = (Inr (Some example_table), self', (1, fetched_store))" by (rule conjunct2 [THEN conjunct1])
  moreover from T q have "priv_normalized_data (fst (run_queries read
         [Normalized_data, Processed_data] (self', (1, fetched_store)))) = Some example_table"
    by blast
  moreover have p: "get_processed_data read example_assay True False ''sample name'' (0, [])
     = (Inr None, example_assay, (1, []))"
    unfolding read_def by code_simp
  moreover have "processed_data read example_assay (1, [])
     = get_processed_data read example_assay False False ''sample name'' (1, [])"
    by (rule cache_after_fetch [where read = read and read' = read and self = example_assay
      and f = True and t = False and dc = "''sample name''" and w = "(0, [])"
      and self' = example_assay and w' = "(1, [])" and w'' = "(1, [])",
      THEN conjunct2, THEN conjunct2, THEN conjunct2, rule_format, OF p])
  ultimately show ?thesis using g unfolding read_def self'_def by (intro conjI)
qed

section \<open>Downloading a file\<close>

lemma write_blocks_chain:
  assumes "length ws = Suc (length blocks)"
    and "\<forall>i < length blocks.
           handle_write io target_file (blocks ! i) (ws ! i) = (None, ws ! Suc i)"
  shows "write_blocks io target_file blocks k (ws ! 0)
           = (Inr (k + length (concat blocks)), ws ! length blocks)"
  using assms
proof (induction blocks arbitrary: ws k)
  case Nil
  then show ?case by simp
next
  case (Cons block blocks)
  from Cons.prems(1) obtain w0 ws' where ws: "ws = w0 # ws'" by (cases ws) simp_all
  with Cons.prems(1) have l: "length ws' = Suc (length blocks)" by simp
  from Cons.prems(2) have "handle_write io target_file ((block # blocks) ! 0) (ws ! 0)
      = (None, ws ! Suc 0)" by blast
  then have h: "handle_write io target_file block w0 = (None, ws' ! 0)" by (simp add: ws)
  have "\<forall>i < length blocks.
          handle_write io target_file (blocks ! i) (ws' ! i) = (None, ws' ! Suc i)"
  proof (intro allI impI)
    fix i assume "i < length blocks"
    then have "Suc i < length (block # blocks)" by simp
    with Cons.prems(2) have "handle_write io target_file ((block # blocks) ! Suc i) (ws ! Suc i)
        = (None, ws ! Suc (Suc i))" by blast
    then show "handle_write io target_file (blocks ! i) (ws' ! i) = (None, ws' ! Suc i)"
      by (simp add: ws)
  qed
  with l have "write_blocks io target_file blocks (k + length block) (ws' ! 0)
      = (Inr ((k + length block) + length (concat blocks)), ws' ! length blocks)"
    by (rule Cons.IH)
  then show ?case by (simp add: ws h)
qed

lemma download_complete:
  assumes "iter_content stream 1024 = (blocks, None)"
    and "open_wb io target_file w2 = (None, w3)"
    and "length ws = Suc (length blocks)" and "ws ! 0 = w3"
    and "\<forall>i < length blocks.
           handle_write io target_file (blocks ! i) (ws ! i) = (None, ws ! Suc i)"
    and "handle_close io target_file (ws ! length blocks) = (None, w5)"
  shows "download io target_file stream w2 = (Inr (length (concat blocks)), w5)"
proof -
  from assms(3,5) have "write_blocks io target_file blocks 0 (ws ! 0)
      = (Inr (0 + length (concat blocks)), ws ! length blocks)"
    by (rule write_blocks_chain)
  then have "write_blocks io target_file blocks 0 w3
      = (Inr (length (concat blocks)), ws ! length blocks)"
    by (simp add: assms(4))
  with assms(1,2,6) show ?thesis by (simp add: download_def)
qed

lemma ensure_directory_ready:
  assumes "isdir io target_directory w \<and> w1 = w
           \<or> \<not> isdir io target_directory w \<and> \<not> isfile io target_directory w
             \<and> makedirs io target_directory w = (None, w1)"
  shows "ensure_directory io target_directory w = (None, w1)"
  using assms by (auto simp add: ensure_directory_def)

lemma request_answered:
  assumes "get io url w1 = (Inr stream, w2)
           \<or> (\<exists>w' u. get io url w1 = (Inl InvalidSchema, w') \<and> http_fallback \<and> url = Some u
                  \<and> get io (Some (ftp_to_http u)) w' = (Inr stream, w2))"
  shows "request io url http_fallback w1 = (Inr stream, w2)"
  using assms by (auto simp add: request_def)

lemma true_division_zero: "\<not> true_division_overflows 0"
  by (simp add: true_division_overflows_def)

lemma fetch_file_download:
  assumes "ensure_directory io target_directory w = (None, w1)"
    and "target_file = join target_directory file_name"
    and "update \<or> \<not> isdir io target_file w1 \<and> \<not> isfile io target_file w1"
    and "request io url http_fallback w1 = (Inr stream, w2)"
    and "status_code stream = 200"
    and "total_bytes_of io stream = Inr total_bytes"
    and "\<not> true_division_overflows total_bytes"
    and "download io target_file stream w2 = (Inr written_bytes, w5)"
  shows "fetch_file io file_name url target_directory update http_fallback w =
           (if total_bytes = int written_bytes then (Inr target_file, w5)
            else (case remove io target_file w5 of
                    (Some e, w6) \<Rightarrow> (Inl e, w6)
                  | (None, w6) \<Rightarrow>
                      (Inl (URLError ''Failed to download the correct number of bytes''), w6)))"
proof -
  have g: "\<not> (\<not> update \<and> isdir io target_file w1)" "\<not> (\<not> update \<and> isfile io target_file w1)"
    using assms(3) by blast+
  show ?thesis
    unfolding fetch_file_def Let_def assms(2) [symmetric]
    using assms(6,7)
    by (cases "total_bytes = int written_bytes") (simp_all add: assms(1,4,5,8) g)
qed

text \<open>
  C10. Take a call of \<^verbatim>\<open>fetch_file\<close> that downloads the whole body: the target directory is
  there or \<^verbatim>\<open>makedirs\<close> makes it, the target is to be written (it is neither a directory
  nor, unless \<^verbatim>\<open>update\<close> is set, a file), the server (asked directly, or again over http
  after InvalidSchema) answers with status 200, \<^verbatim>\<open>open\<close> opens the file, every block that
  arrives is written, one after the other, the transfer ends without an exception, and
  the file is closed. When the
  response has no Content-Length header, 0 bytes are expected: unless the body is empty,
  the call removes the file it has written and raises URLError "Failed to download the
  correct number of bytes" (or what \<^verbatim>\<open>os.remove\<close> raises). With a header, the call returns
  the path when the declared number is the number of bytes written, and removes the file
  and raises when it is not.
\<close>

theorem fetch_file_without_content_length:
  assumes "isdir io target_directory w \<and> w1 = w
           \<or> \<not> isdir io target_directory w \<and> \<not> isfile io target_directory w
             \<and> makedirs io target_directory w = (None, w1)"
    and "target_file = join target_directory file_name"
    and "update \<or> \<not> isdir io target_file w1 \<and> \<not> isfile io target_file w1"
    and "get io url w1 = (Inr stream, w2)
         \<or> (\<exists>w' u. get io url w1 = (Inl InvalidSchema, w') \<and> http_fallback \<and> url = Some u
                \<and> get io (Some (ftp_to_http u)) w' = (Inr stream, w2))"
    and "status_code stream = 200"
    and "iter_content stream 1024 = (blocks, None)"
    and "open_wb io target_file w2 = (None, w3)"
    and "length ws = Suc (length blocks)" and "ws ! 0 = w3"
    and "\<forall>i < length blocks.
           handle_write io target_file (blocks ! i) (ws ! i) = (None, ws ! Suc i)"
    and "handle_close io target_file (ws ! length blocks) = (None, w5)"
  shows "(headers stream ''content-length'' = None \<longrightarrow>
            fetch_file io file_name url target_directory update http_fallback w =
              (if concat blocks = [] then (Inr target_file, w5)
               else (case remove io target_file w5 of
                       (Some e, w6) \<Rightarrow> (Inl e, w6)
                     | (None, w6) \<Rightarrow>
                         (Inl (URLError ''Failed to download the correct number of bytes''), w6))))
       \<and> (\<forall>v total_bytes.
             headers stream ''content-length'' = Some v \<and> py_int io v = Inr total_bytes
             \<and> \<not> true_division_overflows total_bytes \<longrightarrow>
            fetch_file io file_name url target_directory update http_fallback w =
              (if total_bytes = int (length (concat blocks)) then (Inr target_file, w5)
               else (case remove io target_file w5 of
                       (Some e, w6) \<Rightarrow> (Inl e, w6)
                     | (None, w6) \<Rightarrow>
                         (Inl (URLError ''Failed to download the correct number of bytes''), w6))))"
proof (intro conjI allI impI)
  note p = ensure_directory_ready [OF assms(1)]
  note r = request_answered [OF assms(4)]
  note d = download_complete [OF assms(6,7,8,9,10,11)]
  {
    assume h: "headers stream ''content-length'' = None"
    then have t: "total_bytes_of io stream = Inr 0" by (simp add: total_bytes_of_def)
    have "fetch_file io file_name url target_directory update http_fallback w =
           (if 0 = int (length (concat blocks)) then (Inr target_file, w5)
            else (case remove io target_file w5 of
                    (Some e, w6) \<Rightarrow> (Inl e, w6)
                  | (None, w6) \<Rightarrow>
                      (Inl (URLError ''Failed to download the correct number of bytes''), w6)))"
      using p assms(2,3) r assms(5) t true_division_zero d by (rule fetch_file_download)
    then show "fetch_file io file_name url target_directory update http_fallback w =
              (if concat blocks = [] then (Inr target_file, w5)
               else (case remove io target_file w5 of
                       (Some e, w6) \<Rightarrow> (Inl e, w6)
                     | (None, w6) \<Rightarrow>
                         (Inl (URLError ''Failed to download the correct number of bytes''), w6)))"
      by (cases "concat blocks = []") simp_all
  }
  {
    fix v total_bytes
    assume "headers stream ''content-length'' = Some v \<and> py_int io v = Inr total_bytes
             \<and> \<not> true_division_overflows total_bytes"
    then have t: "total_bytes_of io stream = Inr total_bytes"
      and o: "\<not> true_division_overflows total_bytes"
      by (simp_all add: total_bytes_of_def)
    from p assms(2,3) r assms(5) t o d
    show "fetch_file io file_name url target_directory update http_fallback w =
              (if total_bytes = int (length (concat blocks)) then (Inr target_file, w5)
               else (case remove io target_file w5 of
                       (Some e, w6) \<Rightarrow> (Inl e, w6)
                     | (None, w6) \<Rightarrow>
                         (Inl (URLError ''Failed to download the correct number of bytes''), w6)))"
      by (rule fetch_file_download)
  }
qed

text \<open>
  The example. The server that sends no Content-Length: the 32 bytes of GLDS-1_out.txt
  arrive and are written, the call raises, and the store is left with the storage
  directory alone. The server that declares the 32 bytes: the call returns the path, and
  the file is in the store.
\<close>

theorem fetch_file_without_content_length_witness:
  "fetch_file headerless_io ''GLDS-1_out.txt'' (Some ''url3'') ''.genelab/a_GLDS-1'' False True []
     = (Inl (URLError ''Failed to download the correct number of bytes''),
        [(''.genelab/a_GLDS-1'', Directory)])
   \<and> fetch_file example_io ''GLDS-1_out.txt'' (Some ''url3'') ''.genelab/a_GLDS-1'' False True []
     = (Inr ''.genelab/a_GLDS-1/GLDS-1_out.txt'', fetched_store)"
proof
  define w1 :: store where "w1 = [(''.genelab/a_GLDS-1'', Directory)]"
  define w3 :: store where "w3 = w1 @ [(''.genelab/a_GLDS-1/GLDS-1_out.txt'', File [])]"
  define stream where "stream = example_response\<lparr>headers := (\<lambda>key. None)\<rparr>"
  have 1: "isdir headerless_io ''.genelab/a_GLDS-1'' [] \<and> w1 = []
           \<or> \<not> isdir headerless_io ''.genelab/a_GLDS-1'' [] \<and> \<not> isfile headerless_io ''.genelab/a_GLDS-1'' []
             \<and> makedirs headerless_io ''.genelab/a_GLDS-1'' [] = (None, w1)"
    unfolding w1_def by code_simp
  have 2: "''.genelab/a_GLDS-1/GLDS-1_out.txt'' = join ''.genelab/a_GLDS-1'' ''GLDS-1_out.txt''"
    by code_simp
  have 3: "False \<or> \<not> isdir headerless_io ''.genelab/a_GLDS-1/GLDS-1_out.txt'' w1
                 \<and> \<not> isfile headerless_io ''.genelab/a_GLDS-1/GLDS-1_out.txt'' w1"
    unfolding w1_def by code_simp
  have "get headerless_io (Some ''url3'') w1 = (Inr stream, w1)"
    by (simp add: headerless_io_def stream_def)
  then have 4: "get headerless_io (Some ''url3'') w1 = (Inr stream, w1)
         \<or> (\<exists>w' u. get headerless_io (Some ''url3'') w1 = (Inl InvalidSchema, w') \<and> True
                \<and> Some ''url3'' = Some u
                \<and> get headerless_io (Some (ftp_to_http u)) w' = (Inr stream, w1))"
    by (rule disjI1)
  have 5: "status_code stream = 200" by (simp add: stream_def example_response_def)
  have 6: "iter_content stream 1024 = ([example_body], None)"
    by (simp add: stream_def example_response_def)
  have 7: "open_wb headerless_io ''.genelab/a_GLDS-1/GLDS-1_out.txt'' w1 = (None, w3)"
    unfolding w1_def w3_def by code_simp
  have 8: "length [w3, fetched_store] = Suc (length [example_body])" by simp
  have 9: "[w3, fetched_store] ! 0 = w3" by simp
  have "handle_write headerless_io ''.genelab/a_GLDS-1/GLDS-1_out.txt'' example_body w3
          = (None, fetched_store)"
    unfolding w1_def w3_def by code_simp
  then have 10: "\<forall>i < length [example_body].
      handle_write headerless_io ''.genelab/a_GLDS-1/GLDS-1_out.txt'' ([example_body] ! i)
        ([w3, fetched_store] ! i) = (None, [w3, fetched_store] ! Suc i)"
    by simp
  have "handle_close headerless_io ''.genelab/a_GLDS-1/GLDS-1_out.txt'' fetched_store
          = (None, fetched_store)"
    by code_simp
  then have 11: "handle_close headerless_io ''.genelab/a_GLDS-1/GLDS-1_out.txt''
                   ([w3, fetched_store] ! length [example_body]) = (None, fetched_store)"
    by simp
  have h: "headers stream ''content-length'' = None" by (simp add: stream_def)
  have b: "concat [example_body] \<noteq> []" by code_simp
  have r: "remove headerless_io ''.genelab/a_GLDS-1/GLDS-1_out.txt'' fetched_store
             = (None, [(''.genelab/a_GLDS-1'', Directory)])"
    by code_simp
  note T = fetch_file_without_content_length [OF 1 2 3 4 5 6 7 8 9 10 11, THEN conjunct1,
      rule_format, OF h]
  show "fetch_file headerless_io ''GLDS-1_out.txt'' (Some ''url3'') ''.genelab/a_GLDS-1'' False
          True []
     = (Inl (URLError ''Failed to download the correct number of bytes''),
        [(''.genelab/a_GLDS-1'', Directory)])"
    unfolding T by (simp only: b r if_False prod.case option.case)
next
  define w1 :: store where "w1 = [(''.genelab/a_GLDS-1'', Directory)]"
  define w3 :: store where "w3 = w1 @ [(''.genelab/a_GLDS-1/GLDS-1_out.txt'', File [])]"
  have 1: "isdir example_io ''.genelab/a_GLDS-1'' [] \<and> w1 = []
           \<or> \<not> isdir example_io ''.genelab/a_GLDS-1'' [] \<and> \<not> isfile example_io ''.genelab/a_GLDS-1'' []
             \<and> makedirs example_io ''.genelab/a_GLDS-1'' [] = (None, w1)"
    unfolding w1_def by code_simp
  have 2: "''.genelab/a_GLDS-1/GLDS-1_out.txt'' = join ''.genelab/a_GLDS-1'' ''GLDS-1_out.txt''"
    by code_simp
  have 3: "False \<or> \<not> isdir example_io ''.genelab/a_GLDS-1/GLDS-1_out.txt'' w1
                 \<and> \<not> isfile example_io ''.genelab/a_GLDS-1/GLDS-1_out.txt'' w1"
    unfolding w1_def by code_simp
  have "get example_io (Some ''url3'') w1 = (Inr example_response, w1)"
    by (simp add: example_io_def)
  then have 4: "get example_io (Some ''url3'') w1 = (Inr example_response, w1)
         \<or> (\<exists>w' u. get example_io (Some ''url3'') w1 = (Inl InvalidSchema, w') \<and> True
                \<and> Some ''url3'' = Some u
                \<and> get example_io (Some (ftp_to_http u)) w' = (Inr example_response, w1))"
    by (rule disjI1)
  have 5: "status_code example_response = 200" by (simp add: example_response_def)
  have 6: "iter_content example_response 1024 = ([example_body], None)"
    by (simp add: example_response_def)
  have 7: "open_wb example_io ''.genelab/a_GLDS-1/GLDS-1_out.txt'' w1 = (None, w3)"
    unfolding w1_def w3_def by code_simp
  have 8: "length [w3, fetched_store] = Suc (length [example_body])" by simp
  have 9: "[w3, fetched_store] ! 0 = w3" by simp
  have "handle_write example_io ''.genelab/a_GLDS-1/GLDS-1_out.txt'' example_body w3
          = (None, fetched_store)"
    unfolding w1_def w3_def by code_simp
  then have 10: "\<forall>i < length [example_body].
      handle_write example_io ''.genelab/a_GLDS-1/GLDS-1_out.txt'' ([example_body] ! i)
        ([w3, fetched_store] ! i) = (None, [w3, fetched_store] ! Suc i)"
    by simp
  have "handle_close example_io ''.genelab/a_GLDS-1/GLDS-1_out.txt'' fetched_store
          = (None, fetched_store)"
    by code_simp
  then have 11: "handle_close example_io ''.genelab/a_GLDS-1/GLDS-1_out.txt''
                   ([w3, fetched_store] ! length [example_body]) = (None, fetched_store)"
    by simp
  have h: "headers example_response ''content-length'' = Some ''32''
           \<and> py_int example_io ''32'' = Inr 32 \<and> \<not> true_division_overflows 32"
    by code_simp
  have b: "int (length (concat [example_body])) = 32" by code_simp
  note T = fetch_file_without_content_length [OF 1 2 3 4 5 6 7 8 9 10 11, THEN conjunct2,
      rule_format, OF h]
  show "fetch_file example_io ''GLDS-1_out.txt'' (Some ''url3'') ''.genelab/a_GLDS-1'' False True []
     = (Inr ''.genelab/a_GLDS-1/GLDS-1_out.txt'', fetched_store)"
    unfolding T b by simp
qed

section \<open>Further properties\<close>

subsection \<open>The locator when nothing matches\<close>

lemma index_matches_strings:
  "index df = map Str ixs \<Longrightarrow>
     index_matches re df pattern
       = Inr (remdups (map Str (filter (fullmatch re IGNORECASE pattern) ixs)))"
proof -
  assume i: "index df = map Str ixs"
  have "map (\<lambda>ix. case ix of Str s \<Rightarrow> Inr (fullmatch re IGNORECASE pattern s, ix)
                    | _ \<Rightarrow> Inl TypeError) (map Str ixs)
      = map (\<lambda>s. Inr (fullmatch re IGNORECASE pattern s, Str s)) ixs"
    by simp
  then have "collect (map (\<lambda>ix. case ix of Str s \<Rightarrow> Inr (fullmatch re IGNORECASE pattern s, ix)
                    | _ \<Rightarrow> Inl TypeError) (index df))
      = Inr (map (\<lambda>s. (fullmatch re IGNORECASE pattern s, Str s)) ixs)"
    unfolding i by (simp only: collect_map_Inr)
  moreover have "map snd (filter fst (map (\<lambda>s. (fullmatch re IGNORECASE pattern s, Str s)) ixs))
      = map Str (filter (fullmatch re IGNORECASE pattern) ixs)"
    by (induction ixs) simp_all
  ultimately show ?thesis by (simp add: index_matches_def)
qed

lemma concat_replicate_Nil: "concat (map (\<lambda>x. []) xs) = []"
  by (induction xs) simp_all

text \<open>
  For a collection of index patterns that is not empty, over an index of strings of which
  no pattern matches any in full, the locator returns the table without rows; it has the
  columns of the metadata.
\<close>

theorem loc_getitem_no_match:
  assumes "key \<noteq> []" and "index (raw_metadata self) = map Str ixs"
    and "\<forall>pattern \<in> set key. \<forall>ix \<in> set ixs. \<not> fullmatch re IGNORECASE pattern ix"
  shows "loc_getitem re self key
           = Inr \<lparr>columns = columns (raw_metadata self), index = [], cells = []\<rparr>"
proof -
  have "index_matches re (raw_metadata self) pattern = Inr []" if "pattern \<in> set key" for pattern
  proof -
    from that assms(3) have "filter (fullmatch re IGNORECASE pattern) ixs = []"
      by (simp add: filter_empty_conv)
    then show ?thesis by (simp add: index_matches_strings [OF assms(2)])
  qed
  then have "map (index_matches re (raw_metadata self)) key = map (\<lambda>pattern. Inr []) key"
    by simp
  then have "collect (map (index_matches re (raw_metadata self)) key)
      = Inr (map (\<lambda>pattern. []) key)"
    by (simp only: collect_map_Inr)
  moreover have "set_union (map (\<lambda>pattern. [] :: pyval list) key) = Inr []"
    using assms(1) by (simp add: set_union_def concat_replicate_Nil)
  moreover have "loc_labels (raw_metadata self) []
      = Inr \<lparr>columns = columns (raw_metadata self), index = [], cells = []\<rparr>"
    by (simp add: loc_labels_def)
  ultimately show ?thesis by (simp add: loc_getitem_def)
qed

text \<open>The example: no sample of the example assay is called "GSM9" followed by anything.\<close>

theorem loc_getitem_no_match_witness:
  "[''gsm9.*''] \<noteq> []
   \<and> index (raw_metadata example_assay) = map Str [''GSM1_a_1'', ''GSM2_b'']
   \<and> loc_getitem re_fragment example_assay [''gsm9.*'']
       = Inr \<lparr>columns = [''a100001'', ''a100002''], index = [], cells = []\<rparr>"
proof -
  have 1: "[''gsm9.*''] \<noteq> []" by simp
  have 2: "index (raw_metadata example_assay) = map Str [''GSM1_a_1'', ''GSM2_b'']"
    by code_simp
  have "list_all (\<lambda>pattern. list_all (\<lambda>ix. \<not> fullmatch re_fragment IGNORECASE pattern ix)
          [''GSM1_a_1'', ''GSM2_b'']) [''gsm9.*'']"
    by code_simp
  then have 3: "\<forall>pattern \<in> set [''gsm9.*'']. \<forall>ix \<in> set [''GSM1_a_1'', ''GSM2_b''].
      \<not> fullmatch re_fragment IGNORECASE pattern ix"
    unfolding list_all_iff .
  have c: "columns (raw_metadata example_assay) = [''a100001'', ''a100002'']" by code_simp
  from loc_getitem_no_match [OF 1 2 3] c 1 2 show ?thesis by simp
qed

subsection \<open>Field ids of the header\<close>

lemma foldl_update_keys:
  "distinct (map fst d) \<Longrightarrow>
     distinct (map fst (foldl (\<lambda>d (k, v). AList.update k v d) d items))
   \<and> fst ` set (foldl (\<lambda>d (k, v). AList.update k v d) d items) = fst ` set d \<union> fst ` set items"
proof (induction items arbitrary: d)
  case Nil
  then show ?case by simp
next
  case (Cons kv items)
  obtain k v where kv: "kv = (k, v)" by (cases kv)
  define F where "F = (\<lambda>(d :: ('a \<times> 'b) list) (k, v). AList.update k v d)"
  have step: "foldl F d (kv # items) = foldl F (AList.update k v d) items"
    by (simp add: kv F_def)
  from Cons.prems have "distinct (map fst (AList.update k v d))" by (rule AList.distinct_update)
  from Cons.IH [OF this]
  have 1: "distinct (map fst (foldl F (AList.update k v d) items))"
    and 2: "fst ` set (foldl F (AList.update k v d) items)
             = fst ` set (AList.update k v d) \<union> fst ` set items"
    unfolding F_def by blast+
  have 3: "fst ` set (AList.update k v d) = {k} \<union> fst ` set d" by (rule AList.dom_update)
  have 4: "fst ` set (kv # items) = {k} \<union> fst ` set items" by (simp add: kv)
  have 5: "fst ` set (foldl F d (kv # items)) = fst ` set d \<union> fst ` set (kv # items)"
    unfolding step 2 3 4 by blast
  have 6: "distinct (map fst (foldl F d (kv # items)))"
    unfolding step by (rule 1)
  from 6 5 show ?case unfolding F_def by (rule conjI)
qed

lemma length_dict_of_items: "length (dict_of_items items) = card (fst ` set items)"
proof -
  from foldl_update_keys [of "[]" items]
  have d: "distinct (map fst (dict_of_items items))"
    and k: "fst ` set (dict_of_items items) = fst ` set items"
    by (simp_all add: dict_of_items_def)
  from d have "card (set (map fst (dict_of_items items))) = length (map fst (dict_of_items items))"
    by (rule distinct_card)
  then have "length (dict_of_items items) = card (fst ` set (dict_of_items items))" by simp
  then show ?thesis by (simp only: k)
qed

lemma dict_of_items_shorter:
  assumes "\<not> distinct (map fst items)"
  shows "length (dict_of_items items) \<noteq> length items"
proof
  assume "length (dict_of_items items) = length items"
  then have "card (set (map fst items)) = length (map fst items)"
    by (simp add: length_dict_of_items)
  then have "distinct (map fst items)" by (rule card_distinct)
  with assms show False by simp
qed

text \<open>
  A header in which a field id occurs twice is rejected with "Conflicting IDs of data
  fields", whatever else the record holds.
\<close>

theorem duplicate_field_id_rejected:
  assumes "\<not> distinct (map fst (header json))"
  shows "assay_init re DELIM_AS_IS nm json urls sp index_by name_delim
           = Inl (GeneLabJSONException ''Conflicting IDs of data fields'')"
proof -
  from assms have "length (dict_of_items (header json)) \<noteq> length (header json)"
    by (rule dict_of_items_shorter)
  then show ?thesis by (simp add: assay_init_def)
qed

text \<open>The example header with its first field id repeated.\<close>

theorem duplicate_field_id_rejected_witness:
  "\<not> distinct (map fst (header (example_json\<lparr>header :=
        (''a100000'', ''Source Name'') # header example_json\<rparr>)))
   \<and> assay_init re_fragment ''as.is'' ''a_GLDS-1''
        (example_json\<lparr>header := (''a100000'', ''Source Name'') # header example_json\<rparr>)
        example_urls ''.genelab'' ''Sample Name'' ''_''
       = Inl (GeneLabJSONException ''Conflicting IDs of data fields'')"
proof -
  have d: "\<not> distinct (map fst (header (example_json\<lparr>header :=
        (''a100000'', ''Source Name'') # header example_json\<rparr>)))"
    by code_simp
  from duplicate_field_id_rejected [OF d] d show ?thesis by (intro conjI)
qed

end
